theory Spec2Isabelle
  imports Complex_Main "HOL-Library.AList"
begin

section \<open>CheevO! API proxy: a shallow embedding of the Cloudflare worker\<close>

text \<open>
  The repository holds two workers. The second version (rate limiter, response cache,
  Anthropic proxy, CORS allowlist) is the one the specification describes; the first
  version is \<open>src/worker.js\<close>, of which only \<open>corsResponse\<close> is embedded here,
  under the name \<open>corsResponse_v1\<close>.

  Everything the handler takes from its surroundings is an explicit argument:
  the configuration \<open>env\<close>, the two module-level tables (record \<open>state\<close>), and the
  record \<open>world\<close> with the readings of \<open>Date.now()\<close>, the outcome of the one
  outbound \<open>fetch\<close>, and the parts of the JavaScript runtime the source relies on.
\<close>

subsection \<open>JavaScript values\<close>

text \<open>
  A JavaScript number read from JSON is a finite double or an infinity
  (\<open>JSON.parse("1e999")\<close>); coercions can give \<open>NaN\<close>. The code only compares and
  selects numbers, so finite values are rationals here. \<open>-0\<close> is \<open>0\<close>.
\<close>

datatype number = NaN | NegInf | Fin rat | PosInf

datatype json =
    JNull
  | JBool bool
  | JNum number
  | JStr string
  | JArr "json list"
  | JObj "(string \<times> json) list"

text \<open>\<open>Math.min(a, b)\<close> on two numbers.\<close>

fun Math_min :: "number \<Rightarrow> number \<Rightarrow> number" where
  "Math_min NaN y = NaN"
| "Math_min x NaN = NaN"
| "Math_min NegInf y = NegInf"
| "Math_min x NegInf = NegInf"
| "Math_min PosInf y = y"
| "Math_min x PosInf = x"
| "Math_min (Fin a) (Fin b) = Fin (min a b)"

text \<open>Truthiness of a value (\<open>ToBoolean\<close>); \<open>None\<close> is \<open>undefined\<close>.\<close>

fun truthy :: "json \<Rightarrow> bool" where
  "truthy JNull = False"
| "truthy (JBool b) = b"
| "truthy (JNum NaN) = False"
| "truthy (JNum (Fin q)) = (q \<noteq> 0)"
| "truthy (JNum NegInf) = True"
| "truthy (JNum PosInf) = True"
| "truthy (JStr s) = (s \<noteq> [])"
| "truthy (JArr xs) = True"
| "truthy (JObj kvs) = True"

text \<open>\<open>v || d\<close> for a property value \<open>v\<close> that may be \<open>undefined\<close>.\<close>

definition or_default :: "json option \<Rightarrow> json \<Rightarrow> json" where
  "or_default v d = (case v of None \<Rightarrow> d | Some j \<Rightarrow> if truthy j then j else d)"

text \<open>\<open>s || d\<close> for a string that may be \<open>undefined\<close> or \<open>null\<close>.\<close>

definition str_or :: "string option \<Rightarrow> string \<Rightarrow> string" where
  "str_or v d = (case v of None \<Rightarrow> d | Some s \<Rightarrow> if s \<noteq> [] then s else d)"

definition str_truthy :: "string option \<Rightarrow> bool" where
  "str_truthy v = (case v of None \<Rightarrow> False | Some s \<Rightarrow> s \<noteq> [])"

text \<open>
  \<open>ToNumber\<close>, applied by \<open>Math.min\<close> to its arguments. What it gives on a string, an
  array or an object is the runtime's (\<open>StringToNumber\<close>, \<open>ToPrimitive\<close>) and is the
  parameter \<open>conv\<close>.
\<close>

fun ToNumber :: "(json \<Rightarrow> number) \<Rightarrow> json \<Rightarrow> number" where
  "ToNumber conv JNull = Fin 0"
| "ToNumber conv (JBool b) = Fin (if b then 1 else 0)"
| "ToNumber conv (JNum n) = n"
| "ToNumber conv v = conv v"

text \<open>
  Reading property \<open>k\<close> of a parsed JSON value. On an object it is the own property or
  \<open>undefined\<close> (\<open>None\<close>); the primitives and arrays have none of the properties the
  worker reads. On \<open>null\<close> the read throws a \<open>TypeError\<close>: \<open>js_get\<close> returns \<open>Inl\<close>
  its message.
\<close>

fun property :: "json \<Rightarrow> string \<Rightarrow> json option" where
  "property (JObj kvs) k = map_of kvs k"
| "property v k = None"

definition null_read_message :: "string \<Rightarrow> string" where
  "null_read_message k =
     ''Cannot read properties of null (reading '' @ [CHR 0x27] @ k @ [CHR 0x27] @ '')''"

definition js_get :: "json \<Rightarrow> string \<Rightarrow> string + json option" where
  "js_get v k = (if v = JNull then Inl (null_read_message k) else Inr (property v k))"

text \<open>\<open>!v\<close> and \<open>Array.isArray(v)\<close> for a property value that may be \<open>undefined\<close>.\<close>

definition falsy :: "json option \<Rightarrow> bool" where
  "falsy v = (case v of None \<Rightarrow> True | Some j \<Rightarrow> \<not> truthy j)"

fun isArray :: "json option \<Rightarrow> bool" where
  "isArray (Some (JArr xs)) = True"
| "isArray v = False"

text \<open>The entries of an array value.\<close>

fun elements :: "json option \<Rightarrow> json list" where
  "elements (Some (JArr xs)) = xs"
| "elements v = []"

definition startsWith :: "string \<Rightarrow> string \<Rightarrow> bool" where
  "startsWith s p = (take (length p) s = p)"

subsection \<open>Rate limiter\<close>

record rate_entry =
  count :: nat
  resetAt :: int

type_synonym rate_map = "(string \<times> rate_entry) list"

definition RATE_LIMIT_WINDOW :: int where
  "RATE_LIMIT_WINDOW = 60000"

definition RATE_LIMIT_MAX :: nat where
  "RATE_LIMIT_MAX = 20"

text \<open>
  A JavaScript \<open>Map\<close> keeps its keys in insertion order: it is an association list,
  \<open>get\<close> is \<open>map_of\<close>, \<open>set\<close> is \<open>AList.update\<close> (in place, or appended), and a
  \<open>for ... of\<close> loop that deletes the entries it visits is a \<open>filter\<close>.
  \<open>checkRateLimit ip now m\<close> returns the decision and the table after the call;
  \<open>now\<close> is the reading of \<open>Date.now()\<close>.
\<close>

definition checkRateLimit :: "string \<Rightarrow> int \<Rightarrow> rate_map \<Rightarrow> bool \<times> rate_map" where
  "checkRateLimit ip now m =
     (let entry0 = (case map_of m ip of
                      Some e \<Rightarrow> e
                    | None \<Rightarrow> \<lparr>count = 0, resetAt = now + RATE_LIMIT_WINDOW\<rparr>);
          entry1 = (if now > resetAt entry0
                    then entry0\<lparr>count := 0, resetAt := now + RATE_LIMIT_WINDOW\<rparr>
                    else entry0);
          entry2 = entry1\<lparr>count := count entry1 + 1\<rparr>;
          m1 = AList.update ip entry2 m;
          m2 = (if length m1 > 10000
                then filter (\<lambda>(key, val). \<not> now > resetAt val) m1
                else m1)
      in (count entry2 \<le> RATE_LIMIT_MAX, m2))"

text \<open>
  A run of the limiter over a sequence of calls \<open>(client, time)\<close>, each on the table the
  previous one left: \<open>decisions ip cs m\<close> lists, in order, the decisions given to \<open>ip\<close>.
\<close>

fun decisions :: "string \<Rightarrow> (string \<times> int) list \<Rightarrow> rate_map \<Rightarrow> bool list" where
  "decisions ip [] m = []"
| "decisions ip ((c, t) # cs) m =
     (if c = ip then [fst (checkRateLimit c t m)] else [])
     @ decisions ip cs (snd (checkRateLimit c t m))"

subsection \<open>Response cache\<close>

record cache_entry =
  body :: string
  status :: nat
  contentType :: string
  expiresAt :: int

type_synonym cache_map = "(string \<times> cache_entry) list"

definition CACHE_TTL :: int where
  "CACHE_TTL = 300000"

definition CACHEABLE_PREFIXES :: "string list" where
  "CACHEABLE_PREFIXES = [''/api/kbo'']"

definition getCached :: "string \<Rightarrow> int \<Rightarrow> cache_map \<Rightarrow> cache_entry option \<times> cache_map" where
  "getCached key now c =
     (case map_of c key of
        Some entry \<Rightarrow> if now < expiresAt entry then (Some entry, c)
                      else (None, AList.delete key c)
      | None \<Rightarrow> (None, c))"

text \<open>
  \<open>setCache\<close> reads the clock twice: \<open>now\<close> for the sweep and \<open>now'\<close> for the new
  entry's expiry.
\<close>

definition setCache ::
  "string \<Rightarrow> string \<Rightarrow> nat \<Rightarrow> string \<Rightarrow> int \<Rightarrow> int \<Rightarrow> cache_map \<Rightarrow> cache_map" where
  "setCache key b st ct now now' c =
     (let c1 = (if length c > 500
                then filter (\<lambda>(k, v). \<not> now > expiresAt v) c
                else c)
      in AList.update key
           \<lparr>body = b, status = st, contentType = ct, expiresAt = now' + CACHE_TTL\<rparr> c1)"

subsection \<open>Configuration, requests and responses\<close>

text \<open>The worker's bindings; an unset variable is \<open>None\<close>.\<close>

record env =
  ALLOWED_ORIGIN :: "string option"
  CBEAPI_TOKEN :: "string option"
  GNEWS_API_KEY :: "string option"
  FINNHUB_KEY :: "string option"
  ANTHROPIC_API_KEY :: "string option"

type_synonym headers = "(string \<times> string) list"

text \<open>
  The inbound request: \<open>pathname\<close> and \<open>search\<close> are those of \<open>new URL(request.url)\<close>,
  \<open>json_body\<close> is what \<open>await request.json()\<close> does: \<open>Inl\<close> the message of the error
  it throws, \<open>Inr\<close> the parsed value. \<open>origin_header\<close> and \<open>cf_connecting_ip\<close> are what
  \<open>request.headers.get\<close> returns (\<open>None\<close> for \<open>null\<close>): values read from a \<open>Headers\<close>
  object, which are normalized header values already.
\<close>

record request =
  request_method :: string
  pathname :: string
  search :: string
  origin_header :: "string option"
  cf_connecting_ip :: "string option"
  json_body :: "string + json"

datatype body_init = NoBody | Text string | JsonBody json

record response =
  resp_status :: nat
  resp_headers :: headers
  resp_body :: body_init

text \<open>The object the Anthropic route passes to \<open>JSON.stringify\<close>.\<close>

record payload =
  model :: json
  max_tokens :: number
  temperature :: number
  system :: json
  messages :: "json list"

text \<open>The arguments of the outbound \<open>fetch\<close>, and what comes back.\<close>

record upstream_request =
  url :: string
  req_method :: string
  req_headers :: headers
  req_body :: "payload option"

record upstream_response =
  up_status :: nat
  up_text :: string
  up_content_type :: "string option"

definition ok :: "upstream_response \<Rightarrow> bool" where
  "ok r = (200 \<le> up_status r \<and> up_status r \<le> 299)"

text \<open>
  What one run of the handler reads from outside the code:
  \<^item> the four readings of \<open>Date.now()\<close> (in \<open>checkRateLimit\<close>, in \<open>getCached\<close>, and the two
    in \<open>setCache\<close>) and the health check's timestamp;
  \<^item> \<open>to_number\<close>: \<open>ToNumber\<close> on strings, arrays and objects;
  \<^item> \<open>response_init_error b s\<close>: the message of the error that \<open>new Response(b, {status: s})\<close>
    throws for a string body \<open>b\<close>, \<open>None\<close> when it constructs the response (the constructor
    rejects statuses outside 200..599 and bodies on null-body statuses);
  \<^item> \<open>upstream_fetch\<close>: the outcome of \<open>await fetch(...)\<close> followed by \<open>await r.text()\<close>,
    \<open>Inl\<close> the message of the error thrown.
\<close>

record world =
  now_rate :: int
  now_get :: int
  now_sweep :: int
  now_put :: int
  iso_timestamp :: string
  to_number :: "json \<Rightarrow> number"
  response_init_error :: "string \<Rightarrow> nat \<Rightarrow> string option"
  upstream_fetch :: "upstream_request \<Rightarrow> string + upstream_response"

record state =
  rateLimitMap :: rate_map
  responseCache :: cache_map

text \<open>
  The handler's outcome: the response it returns (\<open>Inl\<close> the message of an exception that
  escapes it), the two tables afterwards, and the outbound calls it made, in order.
\<close>

record outcome =
  result :: "string + response"
  tables :: state
  upstream_calls :: "upstream_request list"

definition Response_json :: "json \<Rightarrow> nat \<Rightarrow> response" where
  "Response_json v s =
     \<lparr>resp_status = s, resp_headers = [(''Content-Type'', ''application/json'')],
      resp_body = JsonBody v\<rparr>"

subsection \<open>Route table\<close>

record route =
  target :: string
  description :: string
  addHeaders :: "(env \<Rightarrow> headers) option"
  addKey :: "(string \<Rightarrow> env \<Rightarrow> string) option"

definition kbo_addHeaders :: "env \<Rightarrow> headers" where
  "kbo_addHeaders e =
     (let headers0 = (if str_truthy (CBEAPI_TOKEN e)
                      then [(''Authorization'', ''Bearer '' @ the (CBEAPI_TOKEN e))]
                      else [])
      in AList.update ''Accept-Language'' ''nl'' headers0)"

definition gnews_addKey :: "string \<Rightarrow> env \<Rightarrow> string" where
  "gnews_addKey u e =
     (if str_truthy (GNEWS_API_KEY e)
      then (let sep = (if CHR ''?'' \<in> set u then ''&'' else ''?'')
            in u @ sep @ ''apikey='' @ the (GNEWS_API_KEY e))
      else u)"

definition finnhub_addKey :: "string \<Rightarrow> env \<Rightarrow> string" where
  "finnhub_addKey u e =
     (if str_truthy (FINNHUB_KEY e)
      then (let sep = (if CHR ''?'' \<in> set u then ''&'' else ''?'')
            in u @ sep @ ''token='' @ the (FINNHUB_KEY e))
      else u)"

definition kbo_route :: route where
  "kbo_route =
     \<lparr>target = ''https://cbeapi.be/api'',
      description = ''KBO/CBE - Belgische bedrijfsdata'',
      addHeaders = Some kbo_addHeaders, addKey = None\<rparr>"

definition gnews_route :: route where
  "gnews_route =
     \<lparr>target = ''https://gnews.io/api/v4'',
      description = ''GNews - Nieuwsartikelen'',
      addHeaders = None, addKey = Some gnews_addKey\<rparr>"

definition finnhub_route :: route where
  "finnhub_route =
     \<lparr>target = ''https://finnhub.io/api/v1'',
      description = ''Finnhub - Beursdata'',
      addHeaders = None, addKey = Some finnhub_addKey\<rparr>"

definition API_ROUTES :: "(string \<times> route) list" where
  "API_ROUTES =
     [(''/api/kbo'', kbo_route), (''/api/gnews'', gnews_route), (''/api/finnhub'', finnhub_route)]"

text \<open>\<open>[...Object.keys(API_ROUTES), '/api/anthropic']\<close> as a JSON array.\<close>

definition route_list :: json where
  "route_list = JArr (map JStr (map fst API_ROUTES @ [''/api/anthropic'']))"

text \<open>\<open>Object.assign(h, extra)\<close>: each property of \<open>extra\<close> is set on \<open>h\<close>.\<close>

definition Object_assign :: "headers \<Rightarrow> headers \<Rightarrow> headers" where
  "Object_assign h extra = foldl (\<lambda>acc (k, v). AList.update k v acc) h extra"

subsection \<open>CORS\<close>

definition allowedOrigins :: "env \<Rightarrow> string list" where
  "allowedOrigins e =
     (let fixed = [''https://meyermansheidi.github.io'', ''http://localhost:3000'',
                   ''http://localhost:5500'', ''http://127.0.0.1:5500'']
      in if str_truthy (ALLOWED_ORIGIN e) \<and> the (ALLOWED_ORIGIN e) \<notin> set fixed
         then fixed @ [the (ALLOWED_ORIGIN e)]
         else fixed)"

definition corsResponse :: "env \<Rightarrow> string \<Rightarrow> response \<Rightarrow> response" where
  "corsResponse e origin r =
     (let allowed = allowedOrigins e;
          h0 = resp_headers r;
          h1 = (if origin \<in> set allowed
                then AList.update ''Access-Control-Allow-Origin'' origin h0
                else if origin = [] \<or> origin = ''null''
                then AList.update ''Access-Control-Allow-Origin'' (allowed ! 0) h0
                else AList.update ''Access-Control-Allow-Origin'' (allowed ! 0) h0);
          h2 = AList.update ''Access-Control-Allow-Methods'' ''GET, POST, OPTIONS'' h1;
          h3 = AList.update ''Access-Control-Allow-Headers'' ''Content-Type, Authorization'' h2;
          h4 = AList.update ''Access-Control-Max-Age'' ''86400'' h3;
          h5 = AList.update ''Vary'' ''Origin'' h4
      in \<lparr>resp_status = resp_status r, resp_headers = h5, resp_body = resp_body r\<rparr>)"







subsection \<open>The request handler\<close>

definition respond :: "response \<Rightarrow> state \<Rightarrow> upstream_request list \<Rightarrow> outcome" where
  "respond r st cs = \<lparr>result = Inr r, tables = st, upstream_calls = cs\<rparr>"

text \<open>The \<open>catch\<close> block of the Anthropic route.\<close>

definition anthropic_catch :: "env \<Rightarrow> string \<Rightarrow> string \<Rightarrow> response" where
  "anthropic_catch e origin message =
     corsResponse e origin
       (Response_json (JObj [(''error'', JStr ''Anthropic proxy mislukt''),
                             (''detail'', JStr message)]) 502)"

definition DEFAULT_MODEL :: string where
  "DEFAULT_MODEL = ''claude-sonnet-4-5-20250929''"

text \<open>The object built for \<open>JSON.stringify\<close> from the parsed request body.\<close>

definition anthropic_payload :: "world \<Rightarrow> json \<Rightarrow> json list \<Rightarrow> payload" where
  "anthropic_payload w b msgs =
     (let maxTokens = Math_min (ToNumber (to_number w)
                        (or_default (property b ''max_tokens'') (JNum (Fin 2048))))
                        (Fin 4096)
      in \<lparr>model = or_default (property b ''model'') (JStr DEFAULT_MODEL),
          max_tokens = maxTokens,
          temperature = Math_min (ToNumber (to_number w)
                          (or_default (property b ''temperature'') (JNum (Fin (7 / 10)))))
                          (Fin 1),
          system = or_default (property b ''system'') (JStr []),
          messages = take 10 msgs\<rparr>)"

text \<open>
  The body of \<open>if (url.pathname === '/api/anthropic' && request.method === 'POST')\<close>.
  Only the first property read, \<open>body.messages\<close>, can throw; the later ones are on a value
  that is not \<open>null\<close>, which is why \<open>anthropic_payload\<close> reads with \<open>property\<close>.
\<close>

definition anthropic_route :: "env \<Rightarrow> world \<Rightarrow> string \<Rightarrow> request \<Rightarrow> state \<Rightarrow> outcome" where
  "anthropic_route e w origin request st =
     (if \<not> str_truthy (ANTHROPIC_API_KEY e)
      then respond (corsResponse e origin
             (Response_json
                (JObj [(''error'', JStr ''Anthropic API key niet geconfigureerd op server'')])
                503)) st []
      else case json_body request of
        Inl message \<Rightarrow> respond (anthropic_catch e origin message) st []
      | Inr b \<Rightarrow>
         (case js_get b ''messages'' of
            Inl message \<Rightarrow> respond (anthropic_catch e origin message) st []
          | Inr msgs \<Rightarrow>
             (if falsy msgs \<or> \<not> isArray msgs
              then respond (corsResponse e origin
                     (Response_json
                        (JObj [(''error'', JStr ''Ongeldig request: messages array vereist'')])
                        400)) st []
              else
                (let call = \<lparr>url = ''https://api.anthropic.com/v1/messages'',
                             req_method = ''POST'',
                             req_headers =
                               [(''Content-Type'', ''application/json''),
                                (''x-api-key'', the (ANTHROPIC_API_KEY e)),
                                (''anthropic-version'', ''2023-06-01'')],
                             req_body = Some (anthropic_payload w b (elements msgs))\<rparr>
                 in case upstream_fetch w call of
                      Inl message \<Rightarrow> respond (anthropic_catch e origin message) st [call]
                    | Inr r \<Rightarrow>
                       (case response_init_error w (up_text r) (up_status r) of
                          Some message \<Rightarrow>
                            respond (anthropic_catch e origin message) st [call]
                        | None \<Rightarrow>
                            respond (corsResponse e origin
                              \<lparr>resp_status = up_status r,
                               resp_headers = [(''Content-Type'', ''application/json'')],
                               resp_body = Text (up_text r)\<rparr>) st [call])))))"

definition cacheable :: "request \<Rightarrow> bool" where
  "cacheable request = list_ex (\<lambda>p. startsWith (pathname request) p) CACHEABLE_PREFIXES"

definition cacheKey :: "request \<Rightarrow> string" where
  "cacheKey request = pathname request @ search request"

text \<open>The arguments of the generic routes' \<open>fetch(targetUrl, {method, headers})\<close>.\<close>

definition route_call :: "env \<Rightarrow> request \<Rightarrow> route \<Rightarrow> string \<Rightarrow> upstream_request" where
  "route_call e request rt targetUrl =
     (let requestHeaders0 = [(''Accept'', ''application/json''),
                             (''User-Agent'', ''CheevO-Decision-Intelligence/2.0'')];
          requestHeaders = (case addHeaders rt of
                              Some f \<Rightarrow> Object_assign requestHeaders0 (f e)
                            | None \<Rightarrow> requestHeaders0)
      in \<lparr>url = targetUrl, req_method = request_method request,
          req_headers = requestHeaders, req_body = None\<rparr>)"

text \<open>
  The generic routes from the upstream call on (the second \<open>try\<close> block); the state
  passed in holds the cache as the lookup stage left it.
\<close>

definition forward ::
  "env \<Rightarrow> world \<Rightarrow> string \<Rightarrow> request \<Rightarrow> route \<Rightarrow> string \<Rightarrow> state \<Rightarrow> outcome" where
  "forward e w origin request rt targetUrl st =
     (let call = route_call e request rt targetUrl;
          failed = (\<lambda>message st'.
                      respond (corsResponse e origin
                        (Response_json (JObj [(''error'', JStr ''API request mislukt''),
                                              (''detail'', JStr message)]) 502)) st' [call])
      in case upstream_fetch w call of
           Inl message \<Rightarrow> failed message st
         | Inr r \<Rightarrow>
            (let ct = str_or (up_content_type r) ''application/json'';
                 st1 = (if request_method request = ''GET'' \<and> ok r \<and> cacheable request
                        then st\<lparr>responseCache :=
                                  setCache (cacheKey request) (up_text r) (up_status r) ct
                                    (now_sweep w) (now_put w) (responseCache st)\<rparr>
                        else st)
             in case response_init_error w (up_text r) (up_status r) of
                  Some message \<Rightarrow> failed message st1
                | None \<Rightarrow>
                    respond (corsResponse e origin
                      \<lparr>resp_status = up_status r,
                       resp_headers = [(''Content-Type'', ct), (''X-Cache'', ''MISS'')],
                       resp_body = Text (up_text r)\<rparr>) st1 [call]))"

text \<open>The generic routes: route matching, target URL, cache lookup.\<close>

definition standard_route :: "env \<Rightarrow> world \<Rightarrow> string \<Rightarrow> request \<Rightarrow> state \<Rightarrow> outcome" where
  "standard_route e w origin request st =
     (case find (\<lambda>(prefix, rt). startsWith (pathname request) prefix) API_ROUTES of
        None \<Rightarrow>
          respond (corsResponse e origin
            (Response_json (JObj [(''error'', JStr ''Route niet gevonden''),
                                  (''routes'', route_list)]) 404)) st []
      | Some (prefix, rt) \<Rightarrow>
         (let remainingPath = drop (length prefix) (pathname request);
              targetUrl0 = target rt @ remainingPath @ search request;
              targetUrl = (case addKey rt of
                             Some f \<Rightarrow> f targetUrl0 e
                           | None \<Rightarrow> targetUrl0)
          in if request_method request = ''GET'' \<and> cacheable request
             then (case getCached (cacheKey request) (now_get w) (responseCache st) of
                     (Some cached, c1) \<Rightarrow>
                       (case response_init_error w (body cached) (status cached) of
                          Some message \<Rightarrow>
                            \<lparr>result = Inl message,
                             tables = st\<lparr>responseCache := c1\<rparr>, upstream_calls = []\<rparr>
                        | None \<Rightarrow>
                            respond (corsResponse e origin
                              \<lparr>resp_status = status cached,
                               resp_headers =
                                 [(''Content-Type'',
                                     str_or (Some (contentType cached)) ''application/json''),
                                  (''X-Cache'', ''HIT'')],
                               resp_body = Text (body cached)\<rparr>)
                              (st\<lparr>responseCache := c1\<rparr>) [])
                   | (None, c1) \<Rightarrow>
                       forward e w origin request rt targetUrl (st\<lparr>responseCache := c1\<rparr>))
             else forward e w origin request rt targetUrl st))"

text \<open>The lookup stage answers the request from the cache.\<close>

definition cache_hit :: "world \<Rightarrow> request \<Rightarrow> state \<Rightarrow> bool" where
  "cache_hit w request st =
     (request_method request = ''GET'' \<and> cacheable request
      \<and> fst (getCached (cacheKey request) (now_get w) (responseCache st)) \<noteq> None)"

definition health :: "world \<Rightarrow> json" where
  "health w =
     JObj [(''status'', JStr ''ok''),
           (''service'', JStr ''CheevO! API Proxy v2''),
           (''routes'', route_list),
           (''features'', JArr [JStr ''rate-limiting'', JStr ''cors-whitelist'',
                                JStr ''response-cache'', JStr ''anthropic-proxy'']),
           (''timestamp'', JStr (iso_timestamp w))]"

text \<open>The identifier the limiter counts, and its decision for this request.\<close>

definition clientIP :: "request \<Rightarrow> string" where
  "clientIP request = str_or (cf_connecting_ip request) ''unknown''"

definition admitted :: "world \<Rightarrow> request \<Rightarrow> state \<Rightarrow> bool" where
  "admitted w request st =
     fst (checkRateLimit (clientIP request) (now_rate w) (rateLimitMap st))"

definition fetch :: "env \<Rightarrow> world \<Rightarrow> request \<Rightarrow> state \<Rightarrow> outcome" where
  "fetch e w request st =
     (let origin = str_or (origin_header request) []
      in if request_method request = ''OPTIONS''
         then respond (corsResponse e origin
                \<lparr>resp_status = 204, resp_headers = [], resp_body = NoBody\<rparr>) st []
         else
          (let (allowed, m) = checkRateLimit (clientIP request) (now_rate w) (rateLimitMap st);
               st1 = st\<lparr>rateLimitMap := m\<rparr>
           in if \<not> allowed
              then respond (corsResponse e origin
                     (Response_json
                        (JObj [(''error'',
                           JStr ''Rate limit overschreden. Probeer het over een minuut opnieuw.'')])
                        429)) st1 []
              else if pathname request = ''/'' \<or> pathname request = ''/health''
              then respond (corsResponse e origin (Response_json (health w) 200)) st1 []
              else if pathname request = ''/api/anthropic'' \<and> request_method request = ''POST''
              then anthropic_route e w origin request st1
              else standard_route e w origin request st1))"

subsection \<open>Concrete inputs\<close>

definition ex_env :: env where
  "ex_env = \<lparr>ALLOWED_ORIGIN = None, CBEAPI_TOKEN = Some ''cbe-token'',
             GNEWS_API_KEY = Some ''gnews-key'', FINNHUB_KEY = None,
             ANTHROPIC_API_KEY = Some ''anthropic-key''\<rparr>"

text \<open>
  A world in which the upstream answers \<open>200\<close> with body \<open>{}\<close> and the \<open>Response\<close>
  constructor rejects the statuses outside 200..599.
\<close>

definition ex_world :: world where
  "ex_world =
     \<lparr>now_rate = 1000, now_get = 1001, now_sweep = 1002, now_put = 1003,
      iso_timestamp = ''2025-01-01T00:00:00.000Z'',
      to_number = (\<lambda>v. NaN),
      response_init_error = (\<lambda>b s. if s < 200 \<or> 599 < s then Some ''RangeError'' else None),
      upstream_fetch =
        (\<lambda>c. Inr \<lparr>up_status = 200, up_text = ''{}'', up_content_type = None\<rparr>)\<rparr>"

definition ex_request :: request where
  "ex_request =
     \<lparr>request_method = ''GET'', pathname = ''/api/kbo/company/0123456789'', search = [],
      origin_header = Some ''http://localhost:3000'', cf_connecting_ip = Some ''203.0.113.7'',
      json_body = Inl ''Unexpected end of JSON input''\<rparr>"

text \<open>A \<open>POST /api/anthropic\<close> whose body parses as \<open>b\<close>.\<close>

definition ex_post :: "string + json \<Rightarrow> request" where
  "ex_post b = ex_request\<lparr>request_method := ''POST'', pathname := ''/api/anthropic'', json_body := b\<rparr>"

definition ex_state :: state where
  "ex_state = \<lparr>rateLimitMap = [], responseCache = []\<rparr>"

text \<open>The client of \<open>ex_request\<close> has used its 20 calls and its window is still open.\<close>

definition ex_exhausted :: state where
  "ex_exhausted =
     \<lparr>rateLimitMap = [(''203.0.113.7'', \<lparr>count = 20, resetAt = 50000\<rparr>)], responseCache = []\<rparr>"

text \<open>Requests to the two query-credentialed routes and to an unregistered path.\<close>

definition ex_gnews :: request where
  "ex_gnews = ex_request\<lparr>pathname := ''/api/gnews/search'', search := ''?q=x''\<rparr>"

definition ex_finnhub :: request where
  "ex_finnhub = ex_request\<lparr>pathname := ''/api/finnhub/quote'', search := ''?symbol=AAPL''\<rparr>"

definition ex_unknown :: request where
  "ex_unknown = ex_request\<lparr>pathname := ''/api/unknown''\<rparr>"

text \<open>
  A cache holding, at \<open>now_get ex_world = 1001\<close>, a fresh entry for \<open>ex_request\<close> and an
  expired one for another path.
\<close>

definition ex_hit :: cache_entry where
  "ex_hit = \<lparr>body = ''cached-body'', status = 200, contentType = ''application/json'',
             expiresAt = 5000\<rparr>"

definition ex_old :: cache_entry where
  "ex_old = \<lparr>body = ''old-body'', status = 200, contentType = ''application/json'',
             expiresAt = 900\<rparr>"

definition ex_cached :: state where
  "ex_cached =
     \<lparr>rateLimitMap = [],
      responseCache = [(''/api/kbo/company/0123456789'', ex_hit), (''/api/kbo/old'', ex_old)]\<rparr>"

text \<open>
  A table in which client \<open>a\<close> has a closed window with 500 calls counted, and a run of
  calls after it: twenty more by \<open>a\<close>, one by \<open>b\<close>, and one by \<open>a\<close> at the last
  instant of the window that \<open>a\<close>'s call at time 101 opens.
\<close>

definition ex_rate_map :: rate_map where
  "ex_rate_map = [(''a'', \<lparr>count = 500, resetAt = 100\<rparr>)]"

definition ex_calls :: "(string \<times> int) list" where
  "ex_calls = replicate 20 (''a'', 200) @ [(''b'', 300), (''a'', 60101)]"

text \<open>
  A \<open>POST\<close> on the cacheable route, a world whose upstream answers \<open>500\<close>, and the
  outbound call that \<open>ex_request\<close> leads to.
\<close>

definition ex_kbo_post :: request where
  "ex_kbo_post = ex_request\<lparr>request_method := ''POST''\<rparr>"

definition ex_world_500 :: world where
  "ex_world_500 =
     ex_world\<lparr>upstream_fetch :=
       (\<lambda>c. Inr \<lparr>up_status = 500, up_text = ''upstream error'', up_content_type = None\<rparr>)\<rparr>"

definition ex_kbo_call :: upstream_request where
  "ex_kbo_call = route_call ex_env ex_request kbo_route ''https://cbeapi.be/api/company/0123456789''"

text \<open>The chat request \<open>{"messages": [{"role": "user", "content": "hi"}], "temperature": 0}\<close>.\<close>

definition ex_chat :: json where
  "ex_chat =
     JObj [(''messages'', JArr [JObj [(''role'', JStr ''user''), (''content'', JStr ''hi'')]]),
           (''temperature'', JNum (Fin 0))]"

section \<open>Properties\<close>

subsection \<open>Association lists and CORS headers\<close>

lemma map_of_update:
  "map_of (AList.update k v al) k' = (if k' = k then Some v else map_of al k')"
  by (simp add: update_conv')

lemma cors_status [simp]: "resp_status (corsResponse e origin r) = resp_status r"
  by (simp add: corsResponse_def Let_def)

lemma cors_body [simp]: "resp_body (corsResponse e origin r) = resp_body r"
  by (simp add: corsResponse_def Let_def)

lemma allow_origin_header:
  "map_of (resp_headers (corsResponse e origin r)) ''Access-Control-Allow-Origin'' =
     Some (if origin \<in> set (allowedOrigins e) then origin else allowedOrigins e ! 0)"
  by (simp add: corsResponse_def Let_def map_of_update)

lemma allowedOrigins_first: "allowedOrigins e ! 0 = ''https://meyermansheidi.github.io''"
  by (simp add: allowedOrigins_def Let_def)


lemma cors_fixed_headers:
  "map_of (resp_headers (corsResponse e origin r)) ''Access-Control-Allow-Methods'' =
     Some ''GET, POST, OPTIONS''"
  "map_of (resp_headers (corsResponse e origin r)) ''Access-Control-Allow-Headers'' =
     Some ''Content-Type, Authorization''"
  "map_of (resp_headers (corsResponse e origin r)) ''Access-Control-Max-Age'' = Some ''86400''"
  "map_of (resp_headers (corsResponse e origin r)) ''Vary'' = Some ''Origin''"
  by (simp_all add: corsResponse_def Let_def map_of_update)

lemma cors_x_cache:
  "map_of (resp_headers (corsResponse e origin r)) ''X-Cache'' =
     map_of (resp_headers r) ''X-Cache''"
  by (simp add: corsResponse_def Let_def map_of_update)

subsection \<open>The handler past the rate limiter\<close>

lemma fetch_admitted:
  assumes "request_method request \<noteq> ''OPTIONS''" and "admitted w request st"
  shows "fetch e w request st =
     (let origin = str_or (origin_header request) [];
          st1 = st\<lparr>rateLimitMap :=
                  snd (checkRateLimit (clientIP request) (now_rate w) (rateLimitMap st))\<rparr>
      in if pathname request = ''/'' \<or> pathname request = ''/health''
         then respond (corsResponse e origin (Response_json (health w) 200)) st1 []
         else if pathname request = ''/api/anthropic'' \<and> request_method request = ''POST''
         then anthropic_route e w origin request st1
         else standard_route e w origin request st1)"
  using assms by (simp add: fetch_def admitted_def Let_def case_prod_unfold)

lemma ex_state_admits: "admitted ex_world rq ex_state"
  by (simp add: admitted_def checkRateLimit_def ex_world_def ex_state_def RATE_LIMIT_MAX_def
      Let_def)

lemma ex_cached_admits: "admitted ex_world rq ex_cached"
  by (simp add: admitted_def checkRateLimit_def ex_world_def ex_cached_def RATE_LIMIT_MAX_def
      Let_def)

lemma ex_post_admitted: "admitted ex_world (ex_post b) ex_state"
  by (simp add: admitted_def clientIP_def str_or_def checkRateLimit_def ex_world_def
      ex_post_def ex_request_def ex_state_def RATE_LIMIT_MAX_def Let_def)

lemma ex_exhausted_denied:
  "fetch e ex_world (ex_post b) ex_exhausted =
     respond (corsResponse e ''http://localhost:3000''
        (Response_json
           (JObj [(''error'',
              JStr ''Rate limit overschreden. Probeer het over een minuut opnieuw.'')])
           429))
       (ex_exhausted\<lparr>rateLimitMap :=
          [(''203.0.113.7'', \<lparr>count = 21, resetAt = 50000\<rparr>)]\<rparr>) []"
  by (simp add: fetch_def clientIP_def str_or_def checkRateLimit_def ex_world_def ex_post_def
      ex_request_def ex_exhausted_def RATE_LIMIT_MAX_def Let_def)

subsection \<open>Preflight\<close>

text \<open>
  Claim C9. Every \<open>OPTIONS\<close> request is answered \<open>204\<close> with the CORS headers and no body,
  before the rate limiter runs: whatever the tables hold (also when the client's quota
  is used up), they are returned unchanged, and no outbound call is made.
\<close>

theorem options_preflight:
  assumes "request_method request = ''OPTIONS''"
  shows "\<exists>r. result (fetch e w request st) = Inr r
           \<and> resp_status r = 204 \<and> resp_body r = NoBody
           \<and> map_of (resp_headers r) ''Access-Control-Allow-Origin'' =
               Some (if str_or (origin_header request) [] \<in> set (allowedOrigins e)
                     then str_or (origin_header request) []
                     else ''https://meyermansheidi.github.io'')
           \<and> map_of (resp_headers r) ''Access-Control-Allow-Methods'' = Some ''GET, POST, OPTIONS''
           \<and> map_of (resp_headers r) ''Access-Control-Allow-Headers'' =
               Some ''Content-Type, Authorization''
           \<and> map_of (resp_headers r) ''Access-Control-Max-Age'' = Some ''86400''
           \<and> map_of (resp_headers r) ''Vary'' = Some ''Origin''
           \<and> tables (fetch e w request st) = st
           \<and> upstream_calls (fetch e w request st) = []"
  using assms
  by (simp add: fetch_def respond_def Let_def allow_origin_header allowedOrigins_first
      cors_fixed_headers)

text \<open>
  The client of \<open>ex_exhausted\<close> would be denied by the limiter, and its preflight is
  answered \<open>204\<close> all the same, with the table untouched.
\<close>

theorem options_preflight_witness:
  "\<not> admitted ex_world (ex_request\<lparr>request_method := ''OPTIONS''\<rparr>) ex_exhausted
   \<and> (\<exists>r. result (fetch ex_env ex_world (ex_request\<lparr>request_method := ''OPTIONS''\<rparr>) ex_exhausted) = Inr r
          \<and> resp_status r = 204)
   \<and> tables (fetch ex_env ex_world (ex_request\<lparr>request_method := ''OPTIONS''\<rparr>) ex_exhausted)
       = ex_exhausted"
proof -
  have m: "request_method (ex_request\<lparr>request_method := ''OPTIONS''\<rparr>) = ''OPTIONS''"
    by simp
  have "\<not> admitted ex_world (ex_request\<lparr>request_method := ''OPTIONS''\<rparr>) ex_exhausted"
    by (simp add: admitted_def clientIP_def str_or_def checkRateLimit_def ex_world_def
        ex_request_def ex_exhausted_def RATE_LIMIT_MAX_def RATE_LIMIT_WINDOW_def Let_def)
  with options_preflight [OF m, of ex_env ex_world ex_exhausted] show ?thesis
    by blast
qed

subsection \<open>The Anthropic route: errors\<close>

text \<open>
  Claim C6, as amended. A \<open>POST /api/anthropic\<close> that the rate limiter admits, on a worker
  without the Anthropic credential, is answered \<open>503\<close> at once: no outbound call is made,
  and the outcome is the same whatever reading the request body would give (the body is
  not read).
\<close>

theorem anthropic_missing_credential:
  assumes "request_method request = ''POST''" and "pathname request = ''/api/anthropic''"
    and "\<not> str_truthy (ANTHROPIC_API_KEY e)" and "admitted w request st"
  shows "(\<exists>r. result (fetch e w request st) = Inr r \<and> resp_status r = 503
            \<and> resp_body r = JsonBody (JObj [(''error'',
                 JStr ''Anthropic API key niet geconfigureerd op server'')]))
         \<and> upstream_calls (fetch e w request st) = []
         \<and> (\<forall>b. fetch e w (request\<lparr>json_body := b\<rparr>) st = fetch e w request st)"
proof -
  have "request_method request \<noteq> ''OPTIONS''" "\<And>b. admitted w (request\<lparr>json_body := b\<rparr>) st"
    using assms by (simp_all add: admitted_def clientIP_def)
  then show ?thesis
    using assms
    by (simp add: fetch_admitted clientIP_def anthropic_route_def respond_def
        Response_json_def Let_def)
qed

theorem anthropic_missing_credential_witness:
  "\<not> str_truthy (ANTHROPIC_API_KEY (ex_env\<lparr>ANTHROPIC_API_KEY := None\<rparr>))
   \<and> admitted ex_world (ex_post (Inr (JObj [(''messages'', JArr [])]))) ex_state
   \<and> (\<exists>r. result (fetch (ex_env\<lparr>ANTHROPIC_API_KEY := None\<rparr>) ex_world
                    (ex_post (Inr (JObj [(''messages'', JArr [])]))) ex_state) = Inr r
          \<and> resp_status r = 503)
   \<and> upstream_calls (fetch (ex_env\<lparr>ANTHROPIC_API_KEY := None\<rparr>) ex_world
                    (ex_post (Inr (JObj [(''messages'', JArr [])]))) ex_state) = []"
proof -
  have h: "request_method (ex_post (Inr (JObj [(''messages'', JArr [])]))) = ''POST''"
    "pathname (ex_post (Inr (JObj [(''messages'', JArr [])]))) = ''/api/anthropic''"
    "\<not> str_truthy (ANTHROPIC_API_KEY (ex_env\<lparr>ANTHROPIC_API_KEY := None\<rparr>))"
    by (simp_all add: ex_post_def str_truthy_def)
  from anthropic_missing_credential [OF h ex_post_admitted] h(3) ex_post_admitted
  show ?thesis
    by blast
qed

text \<open>
  The claim as stated covers every such \<open>POST\<close>. The rate limiter runs before the route is
  looked at: the same request from the client of \<open>ex_exhausted\<close>, whose 20 calls of the
  window are used, is answered \<open>429\<close>, not \<open>503\<close>.
\<close>

theorem anthropic_missing_credential_counterexample:
  "request_method (ex_post (Inr (JObj [(''messages'', JArr [])]))) = ''POST''
   \<and> pathname (ex_post (Inr (JObj [(''messages'', JArr [])]))) = ''/api/anthropic''
   \<and> \<not> str_truthy (ANTHROPIC_API_KEY (ex_env\<lparr>ANTHROPIC_API_KEY := None\<rparr>))
   \<and> map_sum id resp_status
        (result (fetch (ex_env\<lparr>ANTHROPIC_API_KEY := None\<rparr>) ex_world
                   (ex_post (Inr (JObj [(''messages'', JArr [])]))) ex_exhausted)) = Inr 429
   \<and> (429 :: nat) \<noteq> 503"
  by (simp add: ex_exhausted_denied respond_def Response_json_def)
    (simp add: ex_post_def str_truthy_def)

text \<open>
  Claim C10, as amended. A \<open>POST /api/anthropic\<close> that the rate limiter admits, with the
  credential configured, whose body does not parse (\<open>request.json()\<close> throws with
  \<open>message\<close>), is answered \<open>502\<close> with error \<open>Anthropic proxy mislukt\<close> and the parse
  failure's message as detail, and no outbound call is made.
\<close>

theorem anthropic_unparseable_body:
  assumes "request_method request = ''POST''" and "pathname request = ''/api/anthropic''"
    and "str_truthy (ANTHROPIC_API_KEY e)" and "admitted w request st"
    and "json_body request = Inl message"
  shows "(\<exists>r. result (fetch e w request st) = Inr r \<and> resp_status r = 502
            \<and> resp_status r \<noteq> 400
            \<and> resp_body r = JsonBody (JObj [(''error'', JStr ''Anthropic proxy mislukt''),
                                            (''detail'', JStr message)]))
         \<and> upstream_calls (fetch e w request st) = []"
proof -
  have "request_method request \<noteq> ''OPTIONS''"
    using assms by simp
  then show ?thesis
    using assms
    by (simp add: fetch_admitted anthropic_route_def anthropic_catch_def respond_def
        Response_json_def Let_def)
qed

theorem anthropic_unparseable_body_witness:
  "str_truthy (ANTHROPIC_API_KEY ex_env)
   \<and> admitted ex_world (ex_post (Inl ''Unexpected token'')) ex_state
   \<and> (\<exists>r. result (fetch ex_env ex_world (ex_post (Inl ''Unexpected token'')) ex_state) = Inr r
          \<and> resp_status r = 502
          \<and> resp_body r = JsonBody (JObj [(''error'', JStr ''Anthropic proxy mislukt''),
                                          (''detail'', JStr ''Unexpected token'')]))
   \<and> upstream_calls (fetch ex_env ex_world (ex_post (Inl ''Unexpected token'')) ex_state) = []"
proof -
  have h: "request_method (ex_post (Inl ''Unexpected token'')) = ''POST''"
    "pathname (ex_post (Inl ''Unexpected token'')) = ''/api/anthropic''"
    "str_truthy (ANTHROPIC_API_KEY ex_env)"
    by (simp_all add: ex_post_def ex_env_def str_truthy_def)
  have b: "json_body (ex_post (Inl ''Unexpected token'')) = Inl ''Unexpected token''"
    by (simp add: ex_post_def)
  from anthropic_unparseable_body [OF h ex_post_admitted b] h(3) ex_post_admitted
  show ?thesis
    by blast
qed

text \<open>
  The claim as stated covers every such \<open>POST\<close>. From the client of \<open>ex_exhausted\<close> the
  request is answered \<open>429\<close> before its body is read, not \<open>502\<close>.
\<close>

theorem anthropic_unparseable_body_counterexample:
  "request_method (ex_post (Inl ''Unexpected token'')) = ''POST''
   \<and> pathname (ex_post (Inl ''Unexpected token'')) = ''/api/anthropic''
   \<and> str_truthy (ANTHROPIC_API_KEY ex_env)
   \<and> json_body (ex_post (Inl ''Unexpected token'')) = Inl ''Unexpected token''
   \<and> map_sum id resp_status
        (result (fetch ex_env ex_world (ex_post (Inl ''Unexpected token'')) ex_exhausted))
       = Inr 429
   \<and> (429 :: nat) \<noteq> 502"
  by (simp add: ex_exhausted_denied respond_def Response_json_def)
    (simp add: ex_post_def ex_env_def str_truthy_def)

subsection \<open>Every response is decorated\<close>

lemma anthropic_route_cors:
  "result (anthropic_route e w origin request st) = Inr r \<Longrightarrow>
     \<exists>r0. r = corsResponse e origin r0 \<and> map_of (resp_headers r0) ''X-Cache'' = None"
  by (auto simp add: anthropic_route_def respond_def anthropic_catch_def Response_json_def Let_def
      split: if_splits sum.splits option.splits)

lemma forward_cors:
  "result (forward e w origin request rt u st) = Inr r \<Longrightarrow>
     \<exists>r0. r = corsResponse e origin r0 \<and> map_of (resp_headers r0) ''X-Cache'' \<noteq> Some ''HIT''"
  by (auto simp add: forward_def respond_def Response_json_def Let_def
      split: if_splits sum.splits option.splits)

lemma getCached_Some:
  "getCached key now c = (Some entry, c') \<longleftrightarrow>
     map_of c key = Some entry \<and> now < expiresAt entry \<and> c' = c"
  by (auto simp add: getCached_def split: option.splits)

lemma getCached_fst_Some:
  "fst (getCached key now c) = Some entry \<longleftrightarrow> map_of c key = Some entry \<and> now < expiresAt entry"
  by (auto simp add: getCached_def split: option.splits)

lemma standard_route_cors:
  "result (standard_route e w origin request st) = Inr r \<Longrightarrow>
     \<exists>r0. r = corsResponse e origin r0 \<and>
       (map_of (resp_headers r0) ''X-Cache'' = Some ''HIT'' \<longrightarrow>
          (\<exists>entry. map_of (responseCache st) (cacheKey request) = Some entry
             \<and> now_get w < expiresAt entry
             \<and> resp_body r0 = Text (body entry) \<and> resp_status r0 = status entry))"
  by (auto simp add: standard_route_def respond_def Response_json_def Let_def getCached_Some
      split: if_splits sum.splits option.splits prod.splits dest!: forward_cors)

lemma fetch_cors:
  "result (fetch e w request st) = Inr r \<Longrightarrow>
     \<exists>r0. r = corsResponse e (str_or (origin_header request) []) r0 \<and>
       (map_of (resp_headers r0) ''X-Cache'' = Some ''HIT'' \<longrightarrow>
          (\<exists>entry. map_of (responseCache st) (cacheKey request) = Some entry
             \<and> now_get w < expiresAt entry
             \<and> resp_body r0 = Text (body entry) \<and> resp_status r0 = status entry))"
  by (auto simp add: fetch_def respond_def Response_json_def Let_def
      split: if_splits prod.splits dest!: anthropic_route_cors standard_route_cors)

subsection \<open>CORS negotiation\<close>







subsection \<open>Cache reads\<close>

text \<open>
  Claim C4. \<open>getCached\<close> returns an entry exactly when the table holds it under the key
  and the current time is strictly before its \<open>expiresAt\<close>, leaving the table as it is;
  on an entry with \<open>expiresAt \<le> now\<close> it deletes the key and returns nothing; on a
  missing key it returns nothing. In the handler, a response marked \<open>X-Cache: HIT\<close> is
  the body and status of an entry that is in the table under the request's key and not
  expired at the time of the read.
\<close>

theorem getCached_never_expired:
  "(fst (getCached key now c) = Some entry \<longleftrightarrow>
      map_of c key = Some entry \<and> now < expiresAt entry)
   \<and> (fst (getCached key now c) = Some entry \<longrightarrow> snd (getCached key now c) = c)
   \<and> (map_of c key = Some entry \<and> expiresAt entry \<le> now \<longrightarrow>
        getCached key now c = (None, AList.delete key c)
        \<and> map_of (AList.delete key c) key = None)
   \<and> (map_of c key = None \<longrightarrow> getCached key now c = (None, c))
   \<and> (\<forall>r. result (fetch e w request st) = Inr r
          \<and> map_of (resp_headers r) ''X-Cache'' = Some ''HIT'' \<longrightarrow>
        (\<exists>hit. map_of (responseCache st) (cacheKey request) = Some hit
           \<and> now_get w < expiresAt hit
           \<and> resp_body r = Text (body hit) \<and> resp_status r = status hit))"
proof -
  have "fst (getCached key now c) = Some entry \<longleftrightarrow>
      map_of c key = Some entry \<and> now < expiresAt entry"
    by (rule getCached_fst_Some)
  moreover have "fst (getCached key now c) = Some entry \<longrightarrow> snd (getCached key now c) = c"
    by (auto simp add: getCached_def split: option.splits)
  moreover have "map_of c key = Some entry \<and> expiresAt entry \<le> now \<longrightarrow>
        getCached key now c = (None, AList.delete key c)
        \<and> map_of (AList.delete key c) key = None"
    by (simp add: getCached_def delete_conv')
  moreover have "map_of c key = None \<longrightarrow> getCached key now c = (None, c)"
    by (simp add: getCached_def)
  moreover have "\<forall>r. result (fetch e w request st) = Inr r
          \<and> map_of (resp_headers r) ''X-Cache'' = Some ''HIT'' \<longrightarrow>
        (\<exists>hit. map_of (responseCache st) (cacheKey request) = Some hit
           \<and> now_get w < expiresAt hit
           \<and> resp_body r = Text (body hit) \<and> resp_status r = status hit)"
  proof (intro allI impI)
    fix r
    assume a: "result (fetch e w request st) = Inr r
          \<and> map_of (resp_headers r) ''X-Cache'' = Some ''HIT''"
    then obtain r0 where r0: "r = corsResponse e (str_or (origin_header request) []) r0"
      and hit: "map_of (resp_headers r0) ''X-Cache'' = Some ''HIT'' \<longrightarrow>
          (\<exists>entry. map_of (responseCache st) (cacheKey request) = Some entry
             \<and> now_get w < expiresAt entry
             \<and> resp_body r0 = Text (body entry) \<and> resp_status r0 = status entry)"
      using fetch_cors by blast
    from a r0 have "map_of (resp_headers r0) ''X-Cache'' = Some ''HIT''"
      by (simp add: cors_x_cache)
    with hit r0 show "\<exists>hit. map_of (responseCache st) (cacheKey request) = Some hit
           \<and> now_get w < expiresAt hit
           \<and> resp_body r = Text (body hit) \<and> resp_status r = status hit"
      by simp
  qed
  ultimately show ?thesis
    by blast
qed

lemma ex_fetch_hit:
  "result (fetch ex_env ex_world ex_request ex_cached) =
     Inr (corsResponse ex_env ''http://localhost:3000''
            \<lparr>resp_status = 200,
             resp_headers = [(''Content-Type'', ''application/json''), (''X-Cache'', ''HIT'')],
             resp_body = Text ''cached-body''\<rparr>)"
  by (simp add: fetch_def clientIP_def str_or_def checkRateLimit_def ex_world_def
      ex_request_def ex_cached_def ex_hit_def RATE_LIMIT_MAX_def Let_def standard_route_def
      API_ROUTES_def startsWith_def respond_def cacheable_def CACHEABLE_PREFIXES_def
      getCached_def cacheKey_def)

theorem getCached_never_expired_witness:
  "fst (getCached ''/api/kbo/company/0123456789'' 1001 (responseCache ex_cached)) = Some ex_hit
   \<and> getCached ''/api/kbo/old'' 1001 (responseCache ex_cached) =
       (None, [(''/api/kbo/company/0123456789'', ex_hit)])
   \<and> getCached ''/api/kbo/none'' 1001 (responseCache ex_cached) = (None, responseCache ex_cached)
   \<and> (\<exists>hit. map_of (responseCache ex_cached) (cacheKey ex_request) = Some hit
          \<and> now_get ex_world < expiresAt hit
          \<and> ''cached-body'' = body hit \<and> status hit = 200)"
proof -
  have fresh: "map_of (responseCache ex_cached) ''/api/kbo/company/0123456789'' = Some ex_hit
      \<and> 1001 < expiresAt ex_hit"
    by (simp add: ex_cached_def ex_hit_def)
  have old: "map_of (responseCache ex_cached) ''/api/kbo/old'' = Some ex_old
      \<and> expiresAt ex_old \<le> 1001"
    by (simp add: ex_cached_def ex_old_def)
  have none: "map_of (responseCache ex_cached) ''/api/kbo/none'' = None"
    by (simp add: ex_cached_def)
  have del: "AList.delete ''/api/kbo/old'' (responseCache ex_cached) =
      [(''/api/kbo/company/0123456789'', ex_hit)]"
    by (simp add: ex_cached_def AList.delete_eq)
  have x: "map_of (resp_headers (corsResponse ex_env ''http://localhost:3000''
            \<lparr>resp_status = 200,
             resp_headers = [(''Content-Type'', ''application/json''), (''X-Cache'', ''HIT'')],
             resp_body = Text ''cached-body''\<rparr>)) ''X-Cache'' = Some ''HIT''"
    by (simp add: cors_x_cache)
  note A = getCached_never_expired [THEN conjunct1]
  note C = getCached_never_expired [THEN conjunct2, THEN conjunct2, THEN conjunct1]
  note D = getCached_never_expired
    [THEN conjunct2, THEN conjunct2, THEN conjunct2, THEN conjunct1]
  note E = getCached_never_expired
    [THEN conjunct2, THEN conjunct2, THEN conjunct2, THEN conjunct2, THEN spec, THEN mp]
  from A [of "''/api/kbo/company/0123456789''" 1001 "responseCache ex_cached" ex_hit] fresh
  have 1: "fst (getCached ''/api/kbo/company/0123456789'' 1001 (responseCache ex_cached)) =
      Some ex_hit"
    by simp
  from C [of "responseCache ex_cached" "''/api/kbo/old''" ex_old 1001, THEN mp, OF old] del
  have 2: "getCached ''/api/kbo/old'' 1001 (responseCache ex_cached) =
       (None, [(''/api/kbo/company/0123456789'', ex_hit)])"
    by simp
  from D [of "responseCache ex_cached" "''/api/kbo/none''" 1001, THEN mp, OF none]
  have 3: "getCached ''/api/kbo/none'' 1001 (responseCache ex_cached) =
      (None, responseCache ex_cached)" .
  from E [of ex_env ex_world ex_request ex_cached, OF conjI, OF ex_fetch_hit x]
  have 4: "\<exists>hit. map_of (responseCache ex_cached) (cacheKey ex_request) = Some hit
          \<and> now_get ex_world < expiresAt hit
          \<and> ''cached-body'' = body hit \<and> status hit = 200"
    by simp
  from 1 2 3 4 show ?thesis
    by (intro conjI)
qed

subsection \<open>Rate limiter\<close>

lemma map_of_filter_keep:
  "map_of m k = Some v \<Longrightarrow> P (k, v) \<Longrightarrow> map_of (filter P m) k = Some v"
  by (induction m) (auto split: if_splits)

lemma checkRateLimit_first:
  assumes "map_of m ip = None \<or> (\<exists>e. map_of m ip = Some e \<and> now > resetAt e)"
  shows "fst (checkRateLimit ip now m)"
    and "map_of (snd (checkRateLimit ip now m)) ip =
           Some \<lparr>count = 1, resetAt = now + RATE_LIMIT_WINDOW\<rparr>"
  using assms
  by (auto simp add: checkRateLimit_def Let_def RATE_LIMIT_MAX_def RATE_LIMIT_WINDOW_def
      map_of_update intro!: map_of_filter_keep)

lemma checkRateLimit_in_window:
  assumes "map_of m ip = Some e" and "now \<le> resetAt e"
  shows "fst (checkRateLimit ip now m) = (count e + 1 \<le> 20)"
    and "map_of (snd (checkRateLimit ip now m)) ip = Some (e\<lparr>count := count e + 1\<rparr>)"
  using assms
  by (auto simp add: checkRateLimit_def Let_def RATE_LIMIT_MAX_def
      map_of_update intro!: map_of_filter_keep)

lemma checkRateLimit_other:
  assumes "map_of m ip = Some e" and "now \<le> resetAt e" and "c \<noteq> ip"
  shows "map_of (snd (checkRateLimit c now m)) ip = Some e"
  using assms
  by (auto simp add: checkRateLimit_def Let_def map_of_update intro!: map_of_filter_keep)

lemma map_upt_shift: "map f [0..<Suc n] = f 0 # map (\<lambda>j. f (Suc j)) [0..<n]"
  by (simp add: upt_conv_Cons map_Suc_upt [symmetric] del: upt_Suc)

lemma decisions_in_window:
  assumes "map_of m ip = Some e" and "\<forall>(c, t) \<in> set cs. t \<le> resetAt e"
  shows "decisions ip cs m =
           map (\<lambda>j. count e + 1 + j \<le> 20) [0..<length (filter (\<lambda>(c, t). c = ip) cs)]"
  using assms
proof (induction cs arbitrary: m e)
  case Nil
  then show ?case by simp
next
  case (Cons call cs)
  obtain c t where call: "call = (c, t)"
    by (cases call)
  from Cons.prems call have t: "t \<le> resetAt e" and rest: "\<forall>(c, t) \<in> set cs. t \<le> resetAt e"
    by auto
  show ?case
  proof (cases "c = ip")
    case True
    let ?e = "e\<lparr>count := count e + 1\<rparr>"
    from checkRateLimit_in_window [OF Cons.prems(1) t]
    have d: "fst (checkRateLimit ip t m) = (count e + 1 \<le> 20)"
      and m': "map_of (snd (checkRateLimit ip t m)) ip = Some ?e"
      by simp_all
    from rest have "\<forall>(c, t) \<in> set cs. t \<le> resetAt ?e"
      by simp
    from Cons.IH [OF m' this]
    have "decisions ip cs (snd (checkRateLimit ip t m)) =
        map (\<lambda>j. count e + 1 + Suc j \<le> 20) [0..<length (filter (\<lambda>(c, t). c = ip) cs)]"
      by simp
    with d True call show ?thesis
      by (simp add: map_upt_shift del: upt_Suc)
  next
    case False
    from checkRateLimit_other [OF Cons.prems(1) t False]
    have m': "map_of (snd (checkRateLimit c t m)) ip = Some e" .
    from Cons.IH [OF m' rest] False call show ?thesis
      by simp
  qed
qed

text \<open>
  Claim C2. With a window of 60000 ms and a maximum of 20: let a client's call at \<open>t0\<close>
  open a window (the client has no entry, or \<open>t0\<close> is strictly after its entry's
  \<open>resetAt\<close>), and let any calls by any clients follow, none later than \<open>t0 + 60000\<close>.
  Then the client's calls are admitted exactly while fewer than 20 came before them in
  the run: the first 20 are admitted, the 21st and all later ones denied. And whatever
  count an entry holds, a call strictly after its \<open>resetAt\<close> is admitted and leaves the
  entry at count 1 with \<open>resetAt = now + 60000\<close>.
\<close>

theorem rate_limit_window:
  assumes "map_of m ip = None \<or> (\<exists>e. map_of m ip = Some e \<and> t0 > resetAt e)"
    and "\<forall>(c, t) \<in> set cs. t \<le> t0 + RATE_LIMIT_WINDOW"
  shows "decisions ip ((ip, t0) # cs) m =
           map (\<lambda>j. j < RATE_LIMIT_MAX) [0..<Suc (length (filter (\<lambda>(c, t). c = ip) cs))]
         \<and> (\<forall>e now. map_of m2 ip = Some e \<and> now > resetAt e \<longrightarrow>
               fst (checkRateLimit ip now m2)
               \<and> map_of (snd (checkRateLimit ip now m2)) ip =
                   Some \<lparr>count = 1, resetAt = now + RATE_LIMIT_WINDOW\<rparr>)"
proof (intro conjI allI impI)
  let ?e = "\<lparr>count = 1, resetAt = t0 + RATE_LIMIT_WINDOW\<rparr>"
  from checkRateLimit_first [OF assms(1)]
  have d: "fst (checkRateLimit ip t0 m)"
    and m': "map_of (snd (checkRateLimit ip t0 m)) ip = Some ?e"
    by simp_all
  from assms(2) have "\<forall>(c, t) \<in> set cs. t \<le> resetAt ?e"
    by simp
  from decisions_in_window [OF m' this]
  have "decisions ip cs (snd (checkRateLimit ip t0 m)) =
      map (\<lambda>j. Suc j < 20) [0..<length (filter (\<lambda>(c, t). c = ip) cs)]"
    by (simp add: Suc_le_eq)
  with d show "decisions ip ((ip, t0) # cs) m =
           map (\<lambda>j. j < RATE_LIMIT_MAX) [0..<Suc (length (filter (\<lambda>(c, t). c = ip) cs))]"
    by (simp add: map_upt_shift RATE_LIMIT_MAX_def del: upt_Suc)
next
  fix e now
  assume a: "map_of m2 ip = Some e \<and> now > resetAt e"
  then have f: "map_of m2 ip = None \<or> (\<exists>e. map_of m2 ip = Some e \<and> now > resetAt e)"
    by blast
  show "fst (checkRateLimit ip now m2)"
    by (rule checkRateLimit_first(1) [OF f])
  show "map_of (snd (checkRateLimit ip now m2)) ip =
                   Some \<lparr>count = 1, resetAt = now + RATE_LIMIT_WINDOW\<rparr>"
    by (rule checkRateLimit_first(2) [OF f])
qed

theorem rate_limit_window_witness:
  "decisions ''a'' ((''a'', 101) # ex_calls) ex_rate_map = replicate 20 True @ [False, False]
   \<and> fst (checkRateLimit ''a'' 101 ex_rate_map)
   \<and> map_of (snd (checkRateLimit ''a'' 101 ex_rate_map)) ''a'' =
       Some \<lparr>count = 1, resetAt = 60101\<rparr>"
proof -
  have h1: "map_of ex_rate_map ''a'' = None
      \<or> (\<exists>e. map_of ex_rate_map ''a'' = Some e \<and> 101 > resetAt e)"
    by (simp add: ex_rate_map_def)
  have h2: "\<forall>(c, t) \<in> set ex_calls. t \<le> 101 + RATE_LIMIT_WINDOW"
    by (simp add: ex_calls_def RATE_LIMIT_WINDOW_def)
  have h3: "map_of ex_rate_map ''a'' = Some \<lparr>count = 500, resetAt = 100\<rparr>
      \<and> 101 > resetAt \<lparr>count = 500, resetAt = 100\<rparr>"
    by (simp add: ex_rate_map_def)
  have n: "map (\<lambda>j. j < RATE_LIMIT_MAX) [0..<Suc (length (filter (\<lambda>(c, t). c = ''a'') ex_calls))]
      = replicate 20 True @ [False, False]"
    by code_simp
  note t = rate_limit_window [OF h1 h2, of ex_rate_map]
  from t [THEN conjunct1] n
  have 1: "decisions ''a'' ((''a'', 101) # ex_calls) ex_rate_map =
      replicate 20 True @ [False, False]"
    by simp
  from t [THEN conjunct2, THEN spec, THEN spec, THEN mp, OF h3]
  have 2: "fst (checkRateLimit ''a'' 101 ex_rate_map)
      \<and> map_of (snd (checkRateLimit ''a'' 101 ex_rate_map)) ''a'' =
          Some \<lparr>count = 1, resetAt = 60101\<rparr>"
    by (simp add: RATE_LIMIT_WINDOW_def)
  from 1 2 show ?thesis
    by (intro conjI) simp_all
qed

subsection \<open>Route matching and the target URL\<close>

lemma startsWith_append: "startsWith s p \<longleftrightarrow> (\<exists>t. s = p @ t)"
  unfolding startsWith_def
  by (metis append_eq_conv_conj append_take_drop_id)

lemma prefixes_exclusive:
  "startsWith s ''/api/gnews'' \<Longrightarrow> \<not> startsWith s ''/api/kbo''"
  "startsWith s ''/api/finnhub'' \<Longrightarrow> \<not> startsWith s ''/api/kbo''"
  "startsWith s ''/api/finnhub'' \<Longrightarrow> \<not> startsWith s ''/api/gnews''"
  "startsWith s ''/api/kbo'' \<Longrightarrow> s \<noteq> ''/'' \<and> s \<noteq> ''/health'' \<and> s \<noteq> ''/api/anthropic''"
  "startsWith s ''/api/gnews'' \<Longrightarrow> s \<noteq> ''/'' \<and> s \<noteq> ''/health'' \<and> s \<noteq> ''/api/anthropic''"
  "startsWith s ''/api/finnhub'' \<Longrightarrow> s \<noteq> ''/'' \<and> s \<noteq> ''/health'' \<and> s \<noteq> ''/api/anthropic''"
  by (auto simp add: startsWith_append)

lemma find_route:
  "startsWith s ''/api/kbo'' \<Longrightarrow>
     find (\<lambda>(prefix, rt). startsWith s prefix) API_ROUTES = Some (''/api/kbo'', kbo_route)"
  "startsWith s ''/api/gnews'' \<Longrightarrow>
     find (\<lambda>(prefix, rt). startsWith s prefix) API_ROUTES = Some (''/api/gnews'', gnews_route)"
  "startsWith s ''/api/finnhub'' \<Longrightarrow>
     find (\<lambda>(prefix, rt). startsWith s prefix) API_ROUTES = Some (''/api/finnhub'', finnhub_route)"
  "\<forall>(prefix, rt) \<in> set API_ROUTES. \<not> startsWith s prefix \<Longrightarrow>
     find (\<lambda>(prefix, rt). startsWith s prefix) API_ROUTES = None"
  by (simp_all add: API_ROUTES_def prefixes_exclusive)

lemma not_cacheable:
  "startsWith (pathname request) ''/api/gnews'' \<Longrightarrow> \<not> cacheable request"
  "startsWith (pathname request) ''/api/finnhub'' \<Longrightarrow> \<not> cacheable request"
  by (simp_all add: cacheable_def CACHEABLE_PREFIXES_def prefixes_exclusive)

lemma forward_calls:
  "upstream_calls (forward e w origin request rt u st) = [route_call e request rt u]"
  by (simp add: forward_def respond_def Let_def split: sum.splits option.splits)

lemma url_route_call: "url (route_call e request rt u) = u"
  by (simp add: route_call_def Let_def)

lemma standard_route_kbo:
  assumes "startsWith (pathname request) ''/api/kbo''" and "\<not> cache_hit w request st"
  shows "standard_route e w origin request st =
           forward e w origin request kbo_route
             (''https://cbeapi.be/api'' @ drop (length ''/api/kbo'') (pathname request)
                @ search request)
             (if request_method request = ''GET''
              then st\<lparr>responseCache :=
                      snd (getCached (cacheKey request) (now_get w) (responseCache st))\<rparr>
              else st)"
proof -
  have c: "cacheable request"
    using assms(1) by (simp add: cacheable_def CACHEABLE_PREFIXES_def)
  show ?thesis
  proof (cases "request_method request = ''GET''")
    case True
    with assms(2) c have "fst (getCached (cacheKey request) (now_get w) (responseCache st)) = None"
      by (simp add: cache_hit_def)
    then obtain c1 where "getCached (cacheKey request) (now_get w) (responseCache st) = (None, c1)"
      by (cases "getCached (cacheKey request) (now_get w) (responseCache st)") simp
    with True c show ?thesis
      by (simp add: standard_route_def find_route(1) [OF assms(1)] kbo_route_def Let_def)
  next
    case False
    then show ?thesis
      by (simp add: standard_route_def find_route(1) [OF assms(1)] kbo_route_def Let_def)
  qed
qed

lemma standard_route_gnews:
  assumes "startsWith (pathname request) ''/api/gnews''"
  shows "standard_route e w origin request st =
           forward e w origin request gnews_route
             (gnews_addKey (''https://gnews.io/api/v4''
                @ drop (length ''/api/gnews'') (pathname request) @ search request) e) st"
  by (simp add: standard_route_def find_route(2) [OF assms] not_cacheable(1) [OF assms]
      gnews_route_def Let_def)

lemma standard_route_finnhub:
  assumes "startsWith (pathname request) ''/api/finnhub''"
  shows "standard_route e w origin request st =
           forward e w origin request finnhub_route
             (finnhub_addKey (''https://finnhub.io/api/v1''
                @ drop (length ''/api/finnhub'') (pathname request) @ search request) e) st"
  by (simp add: standard_route_def find_route(3) [OF assms] not_cacheable(2) [OF assms]
      finnhub_route_def Let_def)

lemma standard_route_none:
  assumes "\<forall>(prefix, rt) \<in> set API_ROUTES. \<not> startsWith (pathname request) prefix"
  shows "standard_route e w origin request st =
           respond (corsResponse e origin
             (Response_json (JObj [(''error'', JStr ''Route niet gevonden''),
                                   (''routes'', route_list)]) 404)) st []"
  by (simp add: standard_route_def find_route(4) [OF assms])

lemma cacheable_iff: "cacheable request \<longleftrightarrow> startsWith (pathname request) ''/api/kbo''"
  by (simp add: cacheable_def CACHEABLE_PREFIXES_def)

lemma standard_route_hit:
  assumes "startsWith (pathname request) ''/api/kbo''" and "request_method request = ''GET''"
    and "fst (getCached (cacheKey request) (now_get w) (responseCache st)) = Some hit"
  shows "standard_route e w origin request st =
     (case response_init_error w (body hit) (status hit) of
        Some message \<Rightarrow> \<lparr>result = Inl message, tables = st, upstream_calls = []\<rparr>
      | None \<Rightarrow>
          respond (corsResponse e origin
            \<lparr>resp_status = status hit,
             resp_headers =
               [(''Content-Type'', str_or (Some (contentType hit)) ''application/json''),
                (''X-Cache'', ''HIT'')],
             resp_body = Text (body hit)\<rparr>) st [])"
proof -
  from assms(3) have "getCached (cacheKey request) (now_get w) (responseCache st) =
      (Some hit, responseCache st)"
    by (auto simp add: getCached_def split: option.splits if_splits)
  with assms(1,2) show ?thesis
    by (simp add: standard_route_def find_route(1) cacheable_iff Let_def split: option.splits)
qed

lemma fetch_kbo:
  assumes "request_method request \<noteq> ''OPTIONS''" and "admitted w request st"
    and "startsWith (pathname request) ''/api/kbo''"
  shows "fetch e w request st =
           standard_route e w (str_or (origin_header request) []) request
             (st\<lparr>rateLimitMap :=
                  snd (checkRateLimit (clientIP request) (now_rate w) (rateLimitMap st))\<rparr>)"
  using prefixes_exclusive(4) [OF assms(3)]
  by (simp add: fetch_admitted [OF assms(1,2)] Let_def)

lemma fetch_kbo_hit:
  assumes "request_method request = ''GET''" and "admitted w request st"
    and "startsWith (pathname request) ''/api/kbo''"
    and "fst (getCached (cacheKey request) (now_get w) (responseCache st)) = Some hit"
  shows "upstream_calls (fetch e w request st) = []"
    and "response_init_error w (body hit) (status hit) = None \<Longrightarrow>
         result (fetch e w request st) =
           Inr (corsResponse e (str_or (origin_header request) [])
            \<lparr>resp_status = status hit,
             resp_headers =
               [(''Content-Type'', str_or (Some (contentType hit)) ''application/json''),
                (''X-Cache'', ''HIT'')],
             resp_body = Text (body hit)\<rparr>)"
proof -
  have m: "request_method request \<noteq> ''OPTIONS''"
    using assms(1) by simp
  let ?st1 = "st\<lparr>rateLimitMap :=
                  snd (checkRateLimit (clientIP request) (now_rate w) (rateLimitMap st))\<rparr>"
  have g: "fst (getCached (cacheKey request) (now_get w) (responseCache ?st1)) = Some hit"
    using assms(4) by simp
  note h = standard_route_hit [OF assms(3) assms(1) g]
  show "upstream_calls (fetch e w request st) = []"
    by (simp add: fetch_kbo [OF m assms(2,3)] h respond_def split: option.splits)
  show "response_init_error w (body hit) (status hit) = None \<Longrightarrow>
         result (fetch e w request st) =
           Inr (corsResponse e (str_or (origin_header request) [])
            \<lparr>resp_status = status hit,
             resp_headers =
               [(''Content-Type'', str_or (Some (contentType hit)) ''application/json''),
                (''X-Cache'', ''HIT'')],
             resp_body = Text (body hit)\<rparr>)"
    by (simp add: fetch_kbo [OF m assms(2,3)] h respond_def)
qed

text \<open>
  Claim C8, as amended. For a request that is not \<open>OPTIONS\<close> and that the rate limiter
  admits: when its path starts with a registered prefix, the dispatcher takes that route
  and calls upstream at target base + path without the prefix + query string, to which
  \<open>/api/gnews\<close> and \<open>/api/finnhub\<close> append their key parameter (\<open>apikey=\<close>, \<open>token=\<close>,
  after \<open>?\<close> or \<open>&\<close>) when the key is configured; under \<open>/api/kbo\<close> this is so unless
  the lookup stage answers a \<open>GET\<close> from the cache, in which case no call is made and
  the response is marked \<open>X-Cache: HIT\<close>.
  When its path starts with no registered prefix, and it is neither the health check nor
  the \<open>POST /api/anthropic\<close>, the answer is \<open>404\<close> with the list of routes, and no call
  is made.
\<close>

theorem route_dispatch:
  assumes "request_method request \<noteq> ''OPTIONS''" and "admitted w request st"
  shows "(startsWith (pathname request) ''/api/kbo'' \<and> \<not> cache_hit w request st \<longrightarrow>
            upstream_calls (fetch e w request st) =
              [route_call e request kbo_route
                 (''https://cbeapi.be/api'' @ drop (length ''/api/kbo'') (pathname request)
                    @ search request)])
         \<and> (startsWith (pathname request) ''/api/gnews'' \<longrightarrow>
            upstream_calls (fetch e w request st) =
              [route_call e request gnews_route
                 (gnews_addKey (''https://gnews.io/api/v4''
                    @ drop (length ''/api/gnews'') (pathname request) @ search request) e)])
         \<and> (startsWith (pathname request) ''/api/finnhub'' \<longrightarrow>
            upstream_calls (fetch e w request st) =
              [route_call e request finnhub_route
                 (finnhub_addKey (''https://finnhub.io/api/v1''
                    @ drop (length ''/api/finnhub'') (pathname request) @ search request) e)])
         \<and> url (route_call e request rt u) = u
         \<and> gnews_addKey u e =
             (if str_truthy (GNEWS_API_KEY e)
              then u @ (if CHR ''?'' \<in> set u then ''&'' else ''?'') @ ''apikey=''
                     @ the (GNEWS_API_KEY e)
              else u)
         \<and> finnhub_addKey u e =
             (if str_truthy (FINNHUB_KEY e)
              then u @ (if CHR ''?'' \<in> set u then ''&'' else ''?'') @ ''token=''
                     @ the (FINNHUB_KEY e)
              else u)
         \<and> map (\<lambda>(prefix, rt). (prefix, target rt)) API_ROUTES =
             [(''/api/kbo'', ''https://cbeapi.be/api''),
              (''/api/gnews'', ''https://gnews.io/api/v4''),
              (''/api/finnhub'', ''https://finnhub.io/api/v1'')]
         \<and> ((\<forall>(prefix, rt) \<in> set API_ROUTES. \<not> startsWith (pathname request) prefix)
              \<and> pathname request \<noteq> ''/'' \<and> pathname request \<noteq> ''/health''
              \<and> \<not> (pathname request = ''/api/anthropic'' \<and> request_method request = ''POST'')
              \<longrightarrow>
            (\<exists>r. result (fetch e w request st) = Inr r \<and> resp_status r = 404
               \<and> resp_body r =
                   JsonBody (JObj [(''error'', JStr ''Route niet gevonden''),
                                   (''routes'', JArr [JStr ''/api/kbo'', JStr ''/api/gnews'',
                                      JStr ''/api/finnhub'', JStr ''/api/anthropic''])]))
            \<and> upstream_calls (fetch e w request st) = [])
         \<and> (startsWith (pathname request) ''/api/kbo'' \<and> cache_hit w request st \<longrightarrow>
            upstream_calls (fetch e w request st) = []
            \<and> (\<forall>r. result (fetch e w request st) = Inr r \<longrightarrow>
                  map_of (resp_headers r) ''X-Cache'' = Some ''HIT''))"
proof (intro conjI impI allI)
  note f = fetch_admitted [OF assms]
  have hit: "\<And>m. cache_hit w request (st\<lparr>rateLimitMap := m\<rparr>) = cache_hit w request st"
    by (simp add: cache_hit_def)
  {
    assume a: "startsWith (pathname request) ''/api/kbo'' \<and> \<not> cache_hit w request st"
    then show "upstream_calls (fetch e w request st) =
              [route_call e request kbo_route
                 (''https://cbeapi.be/api'' @ drop (length ''/api/kbo'') (pathname request)
                    @ search request)]"
      using prefixes_exclusive(4) [of "pathname request"]
      by (simp add: f Let_def standard_route_kbo hit forward_calls)
  }
  {
    assume a: "startsWith (pathname request) ''/api/gnews''"
    then show "upstream_calls (fetch e w request st) =
              [route_call e request gnews_route
                 (gnews_addKey (''https://gnews.io/api/v4''
                    @ drop (length ''/api/gnews'') (pathname request) @ search request) e)]"
      using prefixes_exclusive(5) [of "pathname request"]
      by (simp add: f Let_def standard_route_gnews forward_calls)
  }
  {
    assume a: "startsWith (pathname request) ''/api/finnhub''"
    then show "upstream_calls (fetch e w request st) =
              [route_call e request finnhub_route
                 (finnhub_addKey (''https://finnhub.io/api/v1''
                    @ drop (length ''/api/finnhub'') (pathname request) @ search request) e)]"
      using prefixes_exclusive(6) [of "pathname request"]
      by (simp add: f Let_def standard_route_finnhub forward_calls)
  }
  show "url (route_call e request rt u) = u"
    by (rule url_route_call)
  show "gnews_addKey u e =
             (if str_truthy (GNEWS_API_KEY e)
              then u @ (if CHR ''?'' \<in> set u then ''&'' else ''?'') @ ''apikey=''
                     @ the (GNEWS_API_KEY e)
              else u)"
    by (simp add: gnews_addKey_def Let_def)
  show "finnhub_addKey u e =
             (if str_truthy (FINNHUB_KEY e)
              then u @ (if CHR ''?'' \<in> set u then ''&'' else ''?'') @ ''token=''
                     @ the (FINNHUB_KEY e)
              else u)"
    by (simp add: finnhub_addKey_def Let_def)
  show "map (\<lambda>(prefix, rt). (prefix, target rt)) API_ROUTES =
             [(''/api/kbo'', ''https://cbeapi.be/api''),
              (''/api/gnews'', ''https://gnews.io/api/v4''),
              (''/api/finnhub'', ''https://finnhub.io/api/v1'')]"
    by (simp add: API_ROUTES_def kbo_route_def gnews_route_def finnhub_route_def)
  {
    assume a: "(\<forall>(prefix, rt) \<in> set API_ROUTES. \<not> startsWith (pathname request) prefix)
              \<and> pathname request \<noteq> ''/'' \<and> pathname request \<noteq> ''/health''
              \<and> \<not> (pathname request = ''/api/anthropic'' \<and> request_method request = ''POST'')"
    then have n: "\<forall>(prefix, rt) \<in> set API_ROUTES. \<not> startsWith (pathname request) prefix"
      by blast
    from a show "\<exists>r. result (fetch e w request st) = Inr r \<and> resp_status r = 404
               \<and> resp_body r =
                   JsonBody (JObj [(''error'', JStr ''Route niet gevonden''),
                                   (''routes'', JArr [JStr ''/api/kbo'', JStr ''/api/gnews'',
                                      JStr ''/api/finnhub'', JStr ''/api/anthropic''])])"
      by (auto simp add: f Let_def standard_route_none [OF n] respond_def Response_json_def
          route_list_def API_ROUTES_def)
    from a show "upstream_calls (fetch e w request st) = []"
      by (auto simp add: f Let_def standard_route_none [OF n] respond_def)
  }
  {
    assume a: "startsWith (pathname request) ''/api/kbo'' \<and> cache_hit w request st"
    then obtain hit where g: "request_method request = ''GET''"
      and h: "fst (getCached (cacheKey request) (now_get w) (responseCache st)) = Some hit"
      by (auto simp add: cache_hit_def)
    from a have k: "startsWith (pathname request) ''/api/kbo''"
      by simp
    show "upstream_calls (fetch e w request st) = []"
      by (rule fetch_kbo_hit(1) [OF g assms(2) k h])
    fix r
    assume r: "result (fetch e w request st) = Inr r"
    let ?st1 = "st\<lparr>rateLimitMap :=
                  snd (checkRateLimit (clientIP request) (now_rate w) (rateLimitMap st))\<rparr>"
    have h1: "fst (getCached (cacheKey request) (now_get w) (responseCache ?st1)) = Some hit"
      using h by simp
    from r show "map_of (resp_headers r) ''X-Cache'' = Some ''HIT''"
      by (auto simp add: fetch_kbo [OF assms k] standard_route_hit [OF k g h1] respond_def
          cors_x_cache split: option.splits)
  }
qed

theorem route_dispatch_witness:
  "map url (upstream_calls (fetch ex_env ex_world ex_request ex_state)) =
     [''https://cbeapi.be/api/company/0123456789'']
   \<and> map url (upstream_calls (fetch ex_env ex_world ex_gnews ex_state)) =
     [''https://gnews.io/api/v4/search?q=x&apikey=gnews-key'']
   \<and> map url (upstream_calls (fetch ex_env ex_world ex_finnhub ex_state)) =
     [''https://finnhub.io/api/v1/quote?symbol=AAPL'']
   \<and> (\<exists>r. result (fetch ex_env ex_world ex_unknown ex_state) = Inr r \<and> resp_status r = 404)
   \<and> upstream_calls (fetch ex_env ex_world ex_unknown ex_state) = []
   \<and> cache_hit ex_world ex_request ex_cached
   \<and> upstream_calls (fetch ex_env ex_world ex_request ex_cached) = []"
proof -
  have m: "request_method ex_request \<noteq> ''OPTIONS''" "request_method ex_gnews \<noteq> ''OPTIONS''"
    "request_method ex_finnhub \<noteq> ''OPTIONS''" "request_method ex_unknown \<noteq> ''OPTIONS''"
    by (simp_all add: ex_request_def ex_gnews_def ex_finnhub_def ex_unknown_def)
  have kbo: "startsWith (pathname ex_request) ''/api/kbo''
      \<and> \<not> cache_hit ex_world ex_request ex_state"
    by (simp add: startsWith_def ex_request_def cache_hit_def getCached_def ex_state_def)
  have gnews: "startsWith (pathname ex_gnews) ''/api/gnews''"
    by (simp add: startsWith_def ex_gnews_def)
  have finnhub: "startsWith (pathname ex_finnhub) ''/api/finnhub''"
    by (simp add: startsWith_def ex_finnhub_def)
  have unknown: "(\<forall>(prefix, rt) \<in> set API_ROUTES. \<not> startsWith (pathname ex_unknown) prefix)
      \<and> pathname ex_unknown \<noteq> ''/'' \<and> pathname ex_unknown \<noteq> ''/health''
      \<and> \<not> (pathname ex_unknown = ''/api/anthropic'' \<and> request_method ex_unknown = ''POST'')"
    by (simp add: startsWith_def ex_unknown_def ex_request_def API_ROUTES_def)
  note t1 = route_dispatch [OF m(1) ex_state_admits, of ex_env]
  note t2 = route_dispatch [OF m(2) ex_state_admits, of ex_env]
  note t3 = route_dispatch [OF m(3) ex_state_admits, of ex_env]
  note t4 = route_dispatch [OF m(4) ex_state_admits, of ex_env]
  from t1 [THEN conjunct1, THEN mp, OF kbo]
  have 1: "map url (upstream_calls (fetch ex_env ex_world ex_request ex_state)) =
     [''https://cbeapi.be/api/company/0123456789'']"
    by (simp add: url_route_call ex_request_def)
  from t2 [THEN conjunct2, THEN conjunct1, THEN mp, OF gnews]
  have 2: "map url (upstream_calls (fetch ex_env ex_world ex_gnews ex_state)) =
     [''https://gnews.io/api/v4/search?q=x&apikey=gnews-key'']"
    by (simp add: url_route_call ex_gnews_def gnews_addKey_def ex_env_def str_truthy_def)
  from t3 [THEN conjunct2, THEN conjunct2, THEN conjunct1, THEN mp, OF finnhub]
  have 3: "map url (upstream_calls (fetch ex_env ex_world ex_finnhub ex_state)) =
     [''https://finnhub.io/api/v1/quote?symbol=AAPL'']"
    by (simp add: url_route_call ex_finnhub_def finnhub_addKey_def ex_env_def str_truthy_def)
  from t4 [THEN conjunct2, THEN conjunct2, THEN conjunct2, THEN conjunct2, THEN conjunct2,
      THEN conjunct2, THEN conjunct2, THEN conjunct1, THEN mp, OF unknown]
  have 4: "(\<exists>r. result (fetch ex_env ex_world ex_unknown ex_state) = Inr r \<and> resp_status r = 404)
      \<and> upstream_calls (fetch ex_env ex_world ex_unknown ex_state) = []"
    by blast
  have hit: "startsWith (pathname ex_request) ''/api/kbo''
      \<and> cache_hit ex_world ex_request ex_cached"
    by (simp add: startsWith_def cache_hit_def cacheable_def CACHEABLE_PREFIXES_def
        getCached_def cacheKey_def ex_request_def ex_cached_def ex_hit_def ex_world_def)
  from route_dispatch [OF m(1) ex_cached_admits, of ex_env,
      THEN conjunct2, THEN conjunct2, THEN conjunct2, THEN conjunct2, THEN conjunct2,
      THEN conjunct2, THEN conjunct2, THEN conjunct2, THEN mp, OF hit]
  have 5: "upstream_calls (fetch ex_env ex_world ex_request ex_cached) = []"
    by (rule conjunct1)
  from 1 2 3 4 hit 5 show ?thesis
    by (intro conjI) simp_all
qed

text \<open>
  The claim as stated fails on a query-credentialed route with its key configured: the
  URL called is not target base + stripped path + query string.
\<close>

theorem route_dispatch_counterexample:
  "request_method ex_gnews \<noteq> ''OPTIONS'' \<and> admitted ex_world ex_gnews ex_state
   \<and> startsWith (pathname ex_gnews) ''/api/gnews''
   \<and> map url (upstream_calls (fetch ex_env ex_world ex_gnews ex_state)) =
       [''https://gnews.io/api/v4/search?q=x&apikey=gnews-key'']
   \<and> ''https://gnews.io/api/v4'' @ drop (length ''/api/gnews'') (pathname ex_gnews)
         @ search ex_gnews = ''https://gnews.io/api/v4/search?q=x''
   \<and> ''https://gnews.io/api/v4/search?q=x&apikey=gnews-key''
       \<noteq> ''https://gnews.io/api/v4/search?q=x''"
proof -
  have g: "startsWith (pathname ex_gnews) ''/api/gnews''"
    by (simp add: startsWith_def ex_gnews_def)
  have m: "request_method ex_gnews \<noteq> ''OPTIONS''"
    by (simp add: ex_gnews_def ex_request_def)
  have "map url (upstream_calls (fetch ex_env ex_world ex_gnews ex_state)) =
       [gnews_addKey (''https://gnews.io/api/v4''
          @ drop (length ''/api/gnews'') (pathname ex_gnews) @ search ex_gnews) ex_env]"
    using prefixes_exclusive(5) [OF g]
    by (simp add: fetch_admitted [OF m ex_state_admits] Let_def standard_route_gnews [OF g]
        forward_calls url_route_call)
  then have "map url (upstream_calls (fetch ex_env ex_world ex_gnews ex_state)) =
       [''https://gnews.io/api/v4/search?q=x&apikey=gnews-key'']"
    by (simp add: gnews_addKey_def ex_env_def str_truthy_def ex_gnews_def)
  with g m ex_state_admits show ?thesis
    by (simp add: ex_gnews_def)
qed

subsection \<open>Cache writes and the cache marker\<close>

lemma fetch_calls_admitted:
  assumes "upstream_calls (fetch e w request st) \<noteq> []"
  shows "request_method request \<noteq> ''OPTIONS''" and "admitted w request st"
  using assms
  by (auto simp add: fetch_def admitted_def respond_def Let_def case_prod_unfold
      split: if_splits)

lemma forward_tables:
  assumes "upstream_fetch w (route_call e request rt u) = Inr r"
  shows "tables (forward e w origin request rt u st) =
           (if request_method request = ''GET'' \<and> ok r \<and> cacheable request
            then st\<lparr>responseCache :=
                    setCache (cacheKey request) (up_text r) (up_status r)
                      (str_or (up_content_type r) ''application/json'')
                      (now_sweep w) (now_put w) (responseCache st)\<rparr>
            else st)"
  using assms by (simp add: forward_def respond_def Let_def split: option.splits)

lemma forward_tables_failed:
  assumes "upstream_fetch w (route_call e request rt u) = Inl message"
  shows "tables (forward e w origin request rt u st) = st"
  using assms by (simp add: forward_def respond_def Let_def)

lemma forward_result:
  assumes "upstream_fetch w (route_call e request rt u) = Inr r"
    and "response_init_error w (up_text r) (up_status r) = None"
  shows "result (forward e w origin request rt u st) =
           Inr (corsResponse e origin
                  \<lparr>resp_status = up_status r,
                   resp_headers =
                     [(''Content-Type'', str_or (up_content_type r) ''application/json''),
                      (''X-Cache'', ''MISS'')],
                   resp_body = Text (up_text r)\<rparr>)"
  using assms by (simp add: forward_def respond_def Let_def)

lemma map_of_setCache:
  "map_of (setCache key b s ct now now' c) key =
     Some \<lparr>body = b, status = s, contentType = ct, expiresAt = now' + CACHE_TTL\<rparr>"
  by (simp add: setCache_def Let_def map_of_update)

lemma getCached_snd:
  "snd (getCached key now c) = c \<or> snd (getCached key now c) = AList.delete key c"
  by (simp add: getCached_def split: option.splits)

lemma forward_cache_cases:
  "responseCache (tables (forward e w origin request rt u st)) = responseCache st
   \<or> (\<exists>r. upstream_fetch w (route_call e request rt u) = Inr r
         \<and> request_method request = ''GET'' \<and> ok r \<and> cacheable request)"
  by (cases "upstream_fetch w (route_call e request rt u)")
    (simp_all add: forward_tables forward_tables_failed)

lemma anthropic_tables: "tables (anthropic_route e w origin request st) = st"
  by (simp add: anthropic_route_def respond_def Let_def split: sum.splits option.splits)

lemma standard_route_cache_cases:
  "responseCache (tables (standard_route e w origin request st)) = responseCache st
   \<or> responseCache (tables (standard_route e w origin request st)) =
       AList.delete (cacheKey request) (responseCache st)
   \<or> (\<exists>call r. upstream_calls (standard_route e w origin request st) = [call]
         \<and> upstream_fetch w call = Inr r
         \<and> request_method request = ''GET'' \<and> ok r \<and> cacheable request)"
proof (cases "find (\<lambda>(prefix, rt). startsWith (pathname request) prefix) API_ROUTES")
  case None
  then show ?thesis
    by (simp add: standard_route_def respond_def)
next
  case (Some match)
  obtain prefix rt where match: "match = (prefix, rt)"
    by (cases match)
  obtain cached c1 where g: "getCached (cacheKey request) (now_get w) (responseCache st) = (cached, c1)"
    by (cases "getCached (cacheKey request) (now_get w) (responseCache st)")
  from getCached_snd [of "cacheKey request" "now_get w" "responseCache st"] g
  have c1: "c1 = responseCache st \<or> c1 = AList.delete (cacheKey request) (responseCache st)"
    by simp
  show ?thesis
  proof (cases "request_method request = ''GET'' \<and> cacheable request")
    case True
    show ?thesis
    proof (cases cached)
      case None
      with True Some match g c1
        forward_cache_cases [of e w origin request rt _ "st\<lparr>responseCache := c1\<rparr>"]
      show ?thesis
        by (auto simp add: standard_route_def Let_def forward_calls)
    next
      case (Some hit)
      with True \<open>find _ _ = Some match\<close> match g c1 show ?thesis
        by (auto simp add: standard_route_def Let_def respond_def split: option.splits)
    qed
  next
    case False
    with Some match forward_cache_cases [of e w origin request rt _ st]
    show ?thesis
      by (auto simp add: standard_route_def Let_def forward_calls)
  qed
qed

lemma fetch_cache_cases:
  "responseCache (tables (fetch e w request st)) = responseCache st
   \<or> responseCache (tables (fetch e w request st)) =
       AList.delete (cacheKey request) (responseCache st)
   \<or> (\<exists>call r. upstream_calls (fetch e w request st) = [call]
         \<and> upstream_fetch w call = Inr r
         \<and> request_method request = ''GET'' \<and> ok r \<and> cacheable request)"
proof (cases "request_method request \<noteq> ''OPTIONS'' \<and> admitted w request st")
  case True
  then have f: "request_method request \<noteq> ''OPTIONS''" "admitted w request st"
    by simp_all
  let ?st1 = "st\<lparr>rateLimitMap :=
                  snd (checkRateLimit (clientIP request) (now_rate w) (rateLimitMap st))\<rparr>"
  from standard_route_cache_cases [of e w "str_or (origin_header request) []" request ?st1]
  show ?thesis
    by (auto simp add: fetch_admitted [OF f] Let_def respond_def anthropic_tables)
next
  case False
  then show ?thesis
    by (auto simp add: fetch_def admitted_def respond_def Let_def case_prod_unfold)
qed

lemma fetch_kbo_miss:
  assumes "startsWith (pathname request) ''/api/kbo''"
    and "upstream_calls (fetch e w request st) = [call]"
  shows "\<exists>st'. fetch e w request st =
           forward e w (str_or (origin_header request) []) request kbo_route
             (''https://cbeapi.be/api'' @ drop (length ''/api/kbo'') (pathname request)
                @ search request) st'
           \<and> (responseCache st' = responseCache st
                \<or> responseCache st' = AList.delete (cacheKey request) (responseCache st))"
proof -
  from assms(2) have ne: "upstream_calls (fetch e w request st) \<noteq> []"
    by simp
  note m = fetch_calls_admitted [OF ne]
  let ?st1 = "st\<lparr>rateLimitMap :=
                  snd (checkRateLimit (clientIP request) (now_rate w) (rateLimitMap st))\<rparr>"
  have nohit: "\<not> cache_hit w request ?st1"
  proof
    assume "cache_hit w request ?st1"
    then obtain hit where "request_method request = ''GET''"
      and "fst (getCached (cacheKey request) (now_get w) (responseCache st)) = Some hit"
      by (auto simp add: cache_hit_def)
    from fetch_kbo_hit(1) [OF this(1) m(2) assms(1) this(2)] ne show False
      by simp
  qed
  from getCached_snd [of "cacheKey request" "now_get w" "responseCache st"]
  show ?thesis
    by (auto simp add: fetch_kbo [OF m assms(1)] standard_route_kbo [OF assms(1) nohit])
qed

text \<open>
  Claim C5. An upstream response is written to the cache exactly when the request is a
  \<open>GET\<close>, its path starts with \<open>/api/kbo\<close> and the upstream status is between 200 and
  299: in that case the table afterwards holds the response under the request's key;
  in every other case (a \<open>POST\<close>, another route, a status outside 2xx, or no upstream
  response at all) every entry of the table afterwards was already in it. On the
  cacheable route, a response relayed from upstream carries \<open>X-Cache: MISS\<close>, and one
  served from the cache carries \<open>X-Cache: HIT\<close> and is made without an upstream call.
  (\<open>response_init_error \<dots> = None\<close>: the runtime accepts the body and status for a
  \<open>Response\<close>.)
\<close>

theorem cache_write_iff:
  "(\<forall>call r. upstream_calls (fetch e w request st) = [call] \<and> upstream_fetch w call = Inr r
            \<and> request_method request = ''GET'' \<and> startsWith (pathname request) ''/api/kbo''
            \<and> 200 \<le> up_status r \<and> up_status r \<le> 299 \<longrightarrow>
          map_of (responseCache (tables (fetch e w request st))) (cacheKey request) =
            Some \<lparr>body = up_text r, status = up_status r,
                  contentType = str_or (up_content_type r) ''application/json'',
                  expiresAt = now_put w + CACHE_TTL\<rparr>)
   \<and> (\<not> (\<exists>call r. upstream_calls (fetch e w request st) = [call] \<and> upstream_fetch w call = Inr r
            \<and> request_method request = ''GET'' \<and> startsWith (pathname request) ''/api/kbo''
            \<and> 200 \<le> up_status r \<and> up_status r \<le> 299) \<longrightarrow>
          (\<forall>k v. map_of (responseCache (tables (fetch e w request st))) k = Some v \<longrightarrow>
                 map_of (responseCache st) k = Some v))
   \<and> (\<forall>call r. startsWith (pathname request) ''/api/kbo''
            \<and> upstream_calls (fetch e w request st) = [call] \<and> upstream_fetch w call = Inr r
            \<and> response_init_error w (up_text r) (up_status r) = None \<longrightarrow>
          (\<exists>resp. result (fetch e w request st) = Inr resp
             \<and> map_of (resp_headers resp) ''X-Cache'' = Some ''MISS''
             \<and> resp_body resp = Text (up_text r) \<and> resp_status resp = up_status r))
   \<and> (\<forall>hit. startsWith (pathname request) ''/api/kbo'' \<and> request_method request = ''GET''
            \<and> admitted w request st
            \<and> fst (getCached (cacheKey request) (now_get w) (responseCache st)) = Some hit
            \<and> response_init_error w (body hit) (status hit) = None \<longrightarrow>
          (\<exists>resp. result (fetch e w request st) = Inr resp
             \<and> map_of (resp_headers resp) ''X-Cache'' = Some ''HIT''
             \<and> resp_body resp = Text (body hit) \<and> resp_status resp = status hit)
          \<and> upstream_calls (fetch e w request st) = [])"
proof (intro conjI allI impI)
  fix call r
  assume a: "upstream_calls (fetch e w request st) = [call] \<and> upstream_fetch w call = Inr r
            \<and> request_method request = ''GET'' \<and> startsWith (pathname request) ''/api/kbo''
            \<and> 200 \<le> up_status r \<and> up_status r \<le> 299"
  then obtain st' where f: "fetch e w request st =
           forward e w (str_or (origin_header request) []) request kbo_route
             (''https://cbeapi.be/api'' @ drop (length ''/api/kbo'') (pathname request)
                @ search request) st'"
    using fetch_kbo_miss by blast
  with a have "upstream_fetch w (route_call e request kbo_route
             (''https://cbeapi.be/api'' @ drop (length ''/api/kbo'') (pathname request)
                @ search request)) = Inr r"
    by (simp add: forward_calls)
  from forward_tables [OF this] a
  show "map_of (responseCache (tables (fetch e w request st))) (cacheKey request) =
            Some \<lparr>body = up_text r, status = up_status r,
                  contentType = str_or (up_content_type r) ''application/json'',
                  expiresAt = now_put w + CACHE_TTL\<rparr>"
    by (simp add: f ok_def cacheable_iff map_of_setCache)
next
  fix k v
  assume n: "\<not> (\<exists>call r. upstream_calls (fetch e w request st) = [call] \<and> upstream_fetch w call = Inr r
            \<and> request_method request = ''GET'' \<and> startsWith (pathname request) ''/api/kbo''
            \<and> 200 \<le> up_status r \<and> up_status r \<le> 299)"
    and v: "map_of (responseCache (tables (fetch e w request st))) k = Some v"
  from fetch_cache_cases [of e w request st] n
  have "responseCache (tables (fetch e w request st)) = responseCache st
      \<or> responseCache (tables (fetch e w request st)) =
          AList.delete (cacheKey request) (responseCache st)"
    by (auto simp add: ok_def cacheable_iff)
  with v show "map_of (responseCache st) k = Some v"
    by (auto simp add: delete_conv' split: if_splits)
next
  fix call r
  assume a: "startsWith (pathname request) ''/api/kbo''
            \<and> upstream_calls (fetch e w request st) = [call] \<and> upstream_fetch w call = Inr r
            \<and> response_init_error w (up_text r) (up_status r) = None"
  then obtain st' where f: "fetch e w request st =
           forward e w (str_or (origin_header request) []) request kbo_route
             (''https://cbeapi.be/api'' @ drop (length ''/api/kbo'') (pathname request)
                @ search request) st'"
    using fetch_kbo_miss by blast
  with a have "upstream_fetch w (route_call e request kbo_route
             (''https://cbeapi.be/api'' @ drop (length ''/api/kbo'') (pathname request)
                @ search request)) = Inr r"
    by (simp add: forward_calls)
  from forward_result [OF this] a
  show "\<exists>resp. result (fetch e w request st) = Inr resp
             \<and> map_of (resp_headers resp) ''X-Cache'' = Some ''MISS''
             \<and> resp_body resp = Text (up_text r) \<and> resp_status resp = up_status r"
    by (simp add: f cors_x_cache)
next
  fix hit
  assume a: "startsWith (pathname request) ''/api/kbo'' \<and> request_method request = ''GET''
            \<and> admitted w request st
            \<and> fst (getCached (cacheKey request) (now_get w) (responseCache st)) = Some hit
            \<and> response_init_error w (body hit) (status hit) = None"
  then have h: "request_method request = ''GET''" "admitted w request st"
    "startsWith (pathname request) ''/api/kbo''"
    "fst (getCached (cacheKey request) (now_get w) (responseCache st)) = Some hit"
    "response_init_error w (body hit) (status hit) = None"
    by simp_all
  from fetch_kbo_hit(2) [OF h(1-4) h(5)]
  show "\<exists>resp. result (fetch e w request st) = Inr resp
             \<and> map_of (resp_headers resp) ''X-Cache'' = Some ''HIT''
             \<and> resp_body resp = Text (body hit) \<and> resp_status resp = status hit"
    by (simp add: cors_x_cache)
  from fetch_kbo_hit(1) [OF h(1-4)]
  show "upstream_calls (fetch e w request st) = []" .
qed

lemma ex_kbo_calls:
  assumes "now_get w = 1001"
  shows "upstream_calls (fetch ex_env w ex_request ex_state) = [ex_kbo_call]"
proof -
  have m: "request_method ex_request \<noteq> ''OPTIONS''"
    by (simp add: ex_request_def)
  have a: "admitted w ex_request ex_state"
    by (simp add: admitted_def checkRateLimit_def ex_state_def RATE_LIMIT_MAX_def Let_def)
  have k: "startsWith (pathname ex_request) ''/api/kbo''"
    by (simp add: startsWith_def ex_request_def)
  have n: "\<And>m. \<not> cache_hit w ex_request (ex_state\<lparr>rateLimitMap := m\<rparr>)"
    by (simp add: cache_hit_def getCached_def ex_state_def)
  have u: "''https://cbeapi.be/api'' @ drop (length ''/api/kbo'') (pathname ex_request)
      @ search ex_request = ''https://cbeapi.be/api/company/0123456789''"
    by (simp add: ex_request_def)
  show ?thesis
    by (simp only: fetch_kbo [OF m a k] standard_route_kbo [OF k n] forward_calls u
        ex_kbo_call_def)
qed

theorem cache_write_iff_witness:
  "map_of (responseCache (tables (fetch ex_env ex_world ex_request ex_state)))
     ''/api/kbo/company/0123456789'' =
     Some \<lparr>body = ''{}'', status = 200, contentType = ''application/json'',
           expiresAt = 301003\<rparr>
   \<and> (\<forall>k. map_of (responseCache (tables (fetch ex_env ex_world ex_kbo_post ex_state))) k = None)
   \<and> (\<forall>k. map_of (responseCache (tables (fetch ex_env ex_world_500 ex_request ex_state))) k = None)
   \<and> (\<exists>resp. result (fetch ex_env ex_world ex_request ex_state) = Inr resp
         \<and> map_of (resp_headers resp) ''X-Cache'' = Some ''MISS'')
   \<and> (\<exists>resp. result (fetch ex_env ex_world ex_request ex_cached) = Inr resp
         \<and> map_of (resp_headers resp) ''X-Cache'' = Some ''HIT'')
   \<and> upstream_calls (fetch ex_env ex_world ex_request ex_cached) = []"
proof -
  note t = cache_write_iff [of ex_env ex_world ex_request ex_state]
  have calls: "upstream_calls (fetch ex_env ex_world ex_request ex_state) = [ex_kbo_call]"
    by (rule ex_kbo_calls) (simp add: ex_world_def)
  have up: "upstream_fetch ex_world ex_kbo_call =
      Inr \<lparr>up_status = 200, up_text = ''{}'', up_content_type = None\<rparr>"
    by (simp add: ex_world_def)
  have k: "startsWith (pathname ex_request) ''/api/kbo''"
    "request_method ex_request = ''GET''"
    by (simp_all add: startsWith_def ex_request_def)
  have h1: "upstream_calls (fetch ex_env ex_world ex_request ex_state) = [ex_kbo_call]
      \<and> upstream_fetch ex_world ex_kbo_call =
          Inr \<lparr>up_status = 200, up_text = ''{}'', up_content_type = None\<rparr>
      \<and> request_method ex_request = ''GET'' \<and> startsWith (pathname ex_request) ''/api/kbo''
      \<and> 200 \<le> up_status \<lparr>up_status = 200, up_text = ''{}'', up_content_type = None\<rparr>
      \<and> up_status \<lparr>up_status = 200, up_text = ''{}'', up_content_type = None\<rparr> \<le> 299"
    using calls up k by simp
  from t [THEN conjunct1, THEN spec, THEN spec, THEN mp, OF h1]
  have 1: "map_of (responseCache (tables (fetch ex_env ex_world ex_request ex_state)))
     ''/api/kbo/company/0123456789'' =
     Some \<lparr>body = ''{}'', status = 200, contentType = ''application/json'',
           expiresAt = 301003\<rparr>"
    by (simp add: cacheKey_def ex_request_def str_or_def ex_world_def CACHE_TTL_def)
  have h2: "\<not> (\<exists>call r. upstream_calls (fetch ex_env ex_world ex_kbo_post ex_state) = [call]
      \<and> upstream_fetch ex_world call = Inr r
      \<and> request_method ex_kbo_post = ''GET'' \<and> startsWith (pathname ex_kbo_post) ''/api/kbo''
      \<and> 200 \<le> up_status r \<and> up_status r \<le> 299)"
    by (simp add: ex_kbo_post_def)
  from cache_write_iff [of ex_env ex_world ex_kbo_post ex_state,
      THEN conjunct2, THEN conjunct1, THEN mp, OF h2]
  have 2: "\<forall>k. map_of (responseCache (tables (fetch ex_env ex_world ex_kbo_post ex_state))) k
      = None"
    by (simp add: ex_state_def)
  have h3: "\<not> (\<exists>call r. upstream_calls (fetch ex_env ex_world_500 ex_request ex_state) = [call]
      \<and> upstream_fetch ex_world_500 call = Inr r
      \<and> request_method ex_request = ''GET'' \<and> startsWith (pathname ex_request) ''/api/kbo''
      \<and> 200 \<le> up_status r \<and> up_status r \<le> 299)"
    by (auto simp add: ex_world_500_def)
  from cache_write_iff [of ex_env ex_world_500 ex_request ex_state,
      THEN conjunct2, THEN conjunct1, THEN mp, OF h3]
  have 3: "\<forall>k. map_of (responseCache (tables (fetch ex_env ex_world_500 ex_request ex_state))) k
      = None"
    by (simp add: ex_state_def)
  have h4: "startsWith (pathname ex_request) ''/api/kbo''
      \<and> upstream_calls (fetch ex_env ex_world ex_request ex_state) = [ex_kbo_call]
      \<and> upstream_fetch ex_world ex_kbo_call =
          Inr \<lparr>up_status = 200, up_text = ''{}'', up_content_type = None\<rparr>
      \<and> response_init_error ex_world
           (up_text \<lparr>up_status = 200, up_text = ''{}'', up_content_type = None\<rparr>)
           (up_status \<lparr>up_status = 200, up_text = ''{}'', up_content_type = None\<rparr>) = None"
    using calls up k by (simp add: ex_world_def)
  from t [THEN conjunct2, THEN conjunct2, THEN conjunct1, THEN spec, THEN spec, THEN mp, OF h4]
  have 4: "\<exists>resp. result (fetch ex_env ex_world ex_request ex_state) = Inr resp
         \<and> map_of (resp_headers resp) ''X-Cache'' = Some ''MISS''"
    by blast
  have h5: "startsWith (pathname ex_request) ''/api/kbo'' \<and> request_method ex_request = ''GET''
      \<and> admitted ex_world ex_request ex_cached
      \<and> fst (getCached (cacheKey ex_request) (now_get ex_world) (responseCache ex_cached))
          = Some ex_hit
      \<and> response_init_error ex_world (body ex_hit) (status ex_hit) = None"
    using k ex_cached_admits
    by (simp add: getCached_def cacheKey_def ex_request_def ex_cached_def ex_hit_def
        ex_world_def)
  from cache_write_iff [of ex_env ex_world ex_request ex_cached,
      THEN conjunct2, THEN conjunct2, THEN conjunct2, THEN spec, THEN mp, OF h5]
  have 5: "(\<exists>resp. result (fetch ex_env ex_world ex_request ex_cached) = Inr resp
         \<and> map_of (resp_headers resp) ''X-Cache'' = Some ''HIT'')
      \<and> upstream_calls (fetch ex_env ex_world ex_request ex_cached) = []"
    by blast
  from 1 2 3 4 5 show ?thesis
    by (intro conjI) simp_all
qed

subsection \<open>The Anthropic route: the forwarded body\<close>

text \<open>
  What the route forwards for a body that is not \<open>null\<close> and has a \<open>messages\<close> array:
  one call, whose body is \<open>anthropic_payload\<close>. A number other than 0 is clamped, an
  absent field gets its default, the messages are cut to the first 10. A field given as
  0 (or any other falsy value) is treated by \<open>||\<close> as absent.
\<close>

lemma anthropic_forwards:
  assumes "request_method request = ''POST''" and "pathname request = ''/api/anthropic''"
    and "str_truthy (ANTHROPIC_API_KEY e)" and "admitted w request st"
    and "json_body request = Inr b" and "b \<noteq> JNull"
    and "property b ''messages'' = Some (JArr msgs)"
  shows "map req_body (upstream_calls (fetch e w request st)) = [Some (anthropic_payload w b msgs)]"
    and "map url (upstream_calls (fetch e w request st)) = [''https://api.anthropic.com/v1/messages'']"
proof -
  have m: "request_method request \<noteq> ''OPTIONS''"
    using assms(1) by simp
  show "map req_body (upstream_calls (fetch e w request st)) = [Some (anthropic_payload w b msgs)]"
    using assms
    by (simp add: fetch_admitted [OF m assms(4)] anthropic_route_def js_get_def falsy_def
        respond_def Let_def split: sum.splits option.splits)
  show "map url (upstream_calls (fetch e w request st)) = [''https://api.anthropic.com/v1/messages'']"
    using assms
    by (simp add: fetch_admitted [OF m assms(4)] anthropic_route_def js_get_def falsy_def
        respond_def Let_def split: sum.splits option.splits)
qed

lemma anthropic_payload_fields:
  "messages (anthropic_payload w b msgs) = take 10 msgs"
  "property b ''max_tokens'' = None \<Longrightarrow> max_tokens (anthropic_payload w b msgs) = Fin 2048"
  "property b ''max_tokens'' = Some (JNum (Fin n)) \<Longrightarrow> n \<noteq> 0 \<Longrightarrow>
     max_tokens (anthropic_payload w b msgs) = Fin (min n 4096)"
  "property b ''max_tokens'' = Some (JNum (Fin 0)) \<Longrightarrow>
     max_tokens (anthropic_payload w b msgs) = Fin 2048"
  "property b ''temperature'' = None \<Longrightarrow> temperature (anthropic_payload w b msgs) = Fin (7 / 10)"
  "property b ''temperature'' = Some (JNum (Fin t)) \<Longrightarrow> t \<noteq> 0 \<Longrightarrow>
     temperature (anthropic_payload w b msgs) = Fin (min t 1)"
  "property b ''temperature'' = Some (JNum (Fin 0)) \<Longrightarrow>
     temperature (anthropic_payload w b msgs) = Fin (7 / 10)"
  "property b ''model'' = None \<Longrightarrow> model (anthropic_payload w b msgs) = JStr DEFAULT_MODEL"
  "property b ''model'' = Some (JStr s) \<Longrightarrow> s \<noteq> [] \<Longrightarrow>
     model (anthropic_payload w b msgs) = JStr s"
  "property b ''system'' = None \<Longrightarrow> system (anthropic_payload w b msgs) = JStr []"
  "property b ''system'' = Some (JStr s) \<Longrightarrow> system (anthropic_payload w b msgs) = JStr s"
  by (simp_all add: anthropic_payload_def or_default_def Let_def)

text \<open>
  Claim C1 says the forwarded temperature is \<open>min(requested, 1.0)\<close> whenever one is
  supplied. For the request \<open>ex_chat\<close>, which supplies temperature 0, the worker forwards
  0.7, not \<open>min(0, 1.0) = 0\<close>: \<open>body.temperature || 0.7\<close> takes the default for 0.
\<close>

theorem anthropic_zero_temperature:
  "str_truthy (ANTHROPIC_API_KEY ex_env) \<and> admitted ex_world (ex_post (Inr ex_chat)) ex_state
   \<and> property ex_chat ''temperature'' = Some (JNum (Fin 0))
   \<and> map (map_option temperature \<circ> req_body)
        (upstream_calls (fetch ex_env ex_world (ex_post (Inr ex_chat)) ex_state)) =
       [Some (Fin (7 / 10))]
   \<and> Fin (7 / 10) \<noteq> Fin (min 0 1)"
proof -
  have h: "request_method (ex_post (Inr ex_chat)) = ''POST''"
    "pathname (ex_post (Inr ex_chat)) = ''/api/anthropic''"
    "str_truthy (ANTHROPIC_API_KEY ex_env)"
    by (simp_all add: ex_post_def ex_env_def str_truthy_def)
  have b: "json_body (ex_post (Inr ex_chat)) = Inr ex_chat" "ex_chat \<noteq> JNull"
    "property ex_chat ''messages'' =
       Some (JArr [JObj [(''role'', JStr ''user''), (''content'', JStr ''hi'')]])"
    by (simp_all add: ex_post_def ex_chat_def)
  have t: "property ex_chat ''temperature'' = Some (JNum (Fin 0))"
    by (simp add: ex_chat_def)
  from anthropic_forwards(1) [OF h ex_state_admits b] anthropic_payload_fields(7) [OF t]
  have "map (map_option temperature \<circ> req_body)
        (upstream_calls (fetch ex_env ex_world (ex_post (Inr ex_chat)) ex_state)) =
       [Some (Fin (7 / 10))]"
    by (auto simp add: map_eq_Cons_conv)
  with h(3) t ex_state_admits show ?thesis
    by simp
qed

subsection \<open>The Anthropic route: validation\<close>

text \<open>
  A parsed body other than \<open>null\<close> whose \<open>messages\<close> is absent or not an array is answered
  \<open>400\<close>, with no outbound call.
\<close>

lemma anthropic_bad_messages:
  assumes "request_method request = ''POST''" and "pathname request = ''/api/anthropic''"
    and "str_truthy (ANTHROPIC_API_KEY e)" and "admitted w request st"
    and "json_body request = Inr b" and "b \<noteq> JNull"
    and "\<forall>msgs. property b ''messages'' \<noteq> Some (JArr msgs)"
  shows "\<exists>r. result (fetch e w request st) = Inr r \<and> resp_status r = 400"
    and "upstream_calls (fetch e w request st) = []"
proof -
  have m: "request_method request \<noteq> ''OPTIONS''"
    using assms(1) by simp
  have bad: "falsy (property b ''messages'') \<or> \<not> isArray (property b ''messages'')"
  proof (cases "property b ''messages''")
    case None
    then show ?thesis by (simp add: falsy_def)
  next
    case (Some j)
    with assms(7) show ?thesis
      by (cases j) simp_all
  qed
  show "\<exists>r. result (fetch e w request st) = Inr r \<and> resp_status r = 400"
    using assms(1-6) bad
    by (auto simp add: fetch_admitted [OF m assms(4)] anthropic_route_def js_get_def
        respond_def Response_json_def Let_def)
  show "upstream_calls (fetch e w request st) = []"
    using assms(1-6) bad
    by (auto simp add: fetch_admitted [OF m assms(4)] anthropic_route_def js_get_def
        respond_def Let_def)
qed

text \<open>
  Claim C7 says every parsed body without a \<open>messages\<close> array is answered \<open>400\<close>. The body
  \<open>null\<close> has no \<open>messages\<close> field, and reading \<open>body.messages\<close> on it throws inside the
  \<open>try\<close> block: the worker answers \<open>502\<close>, \<open>Anthropic proxy mislukt\<close>.
\<close>

theorem anthropic_null_body:
  "str_truthy (ANTHROPIC_API_KEY ex_env) \<and> admitted ex_world (ex_post (Inr JNull)) ex_state
   \<and> property JNull ''messages'' = None
   \<and> (\<exists>r. result (fetch ex_env ex_world (ex_post (Inr JNull)) ex_state) = Inr r
          \<and> resp_status r = 502
          \<and> resp_body r = JsonBody (JObj [(''error'', JStr ''Anthropic proxy mislukt''),
                                          (''detail'', JStr (null_read_message ''messages''))]))
   \<and> upstream_calls (fetch ex_env ex_world (ex_post (Inr JNull)) ex_state) = []"
proof -
  have m: "request_method (ex_post (Inr JNull)) \<noteq> ''OPTIONS''"
    by (simp add: ex_post_def)
  have k: "str_truthy (ANTHROPIC_API_KEY ex_env)"
    by (simp add: ex_env_def str_truthy_def)
  have p: "pathname (ex_post (Inr JNull)) = ''/api/anthropic''"
    "request_method (ex_post (Inr JNull)) = ''POST''"
    "json_body (ex_post (Inr JNull)) = Inr JNull"
    by (simp_all add: ex_post_def)
  show ?thesis
    using k p ex_state_admits
    by (simp add: fetch_admitted [OF m ex_state_admits] anthropic_route_def js_get_def
        anthropic_catch_def respond_def Response_json_def Let_def)
qed

end
